theory Spec2Isabelle
  imports Main "HOL-Library.Word"
begin

unbundle bit_operations_syntax

section \<open>Envelope encryption of transaction records (\<^verbatim>\<open>packages/crypto/src/envelope.ts\<close>)\<close>

text \<open>
  The development embeds \<^verbatim>\<open>envelope.ts\<close> function by function. A JavaScript string is a
  list of 16-bit code units, a \<^verbatim>\<open>Buffer\<close> a list of 8-bit words, and
  \<^verbatim>\<open>throw new Error(msg)\<close> the value \<open>Inl (Error msg)\<close> of a sum type: the message is
  all the source attaches to an error, so it is what identifies the error here too. The
  messages are built from literals of the source and are kept as \<open>string\<close>.
\<close>

subsection \<open>Bytes, strings, errors and constants\<close>

type_synonym byte = "8 word"
type_synonym buffer = "byte list"
type_synonym unit16 = "16 word"
type_synonym jstring = "unit16 list"

text \<open>A literal of the source, as a JavaScript string.\<close>

definition js :: "string \<Rightarrow> jstring" where
  "js text = map (\<lambda>c. word_of_nat (of_char c)) text"

datatype error = Error (message: string)

definition NONCE_BYTES :: nat where "NONCE_BYTES = 12"
definition TAG_BYTES :: nat where "TAG_BYTES = 16"
definition KEY_BYTES :: nat where "KEY_BYTES = 32"

subsection \<open>Hex codec\<close>

text \<open>The character class \<^verbatim>\<open>[0-9a-fA-F]\<close> of the regular expression in \<^verbatim>\<open>isValidHex\<close>.\<close>

definition hex_class :: "unit16 \<Rightarrow> bool" where
  "hex_class c \<longleftrightarrow>
     (let n = unat c
      in (48 \<le> n \<and> n \<le> 57) \<or> (97 \<le> n \<and> n \<le> 102) \<or> (65 \<le> n \<and> n \<le> 70))"

text \<open>
  \<^verbatim>\<open>str.length % 2 === 0 && /^[0-9a-fA-F]+$/.test(str)\<close>. The quantifier \<^verbatim>\<open>+\<close> asks for
  at least one character of the class between the two anchors.
\<close>

definition isValidHex :: "jstring \<Rightarrow> bool" where
  "isValidHex str \<longleftrightarrow> length str mod 2 = 0 \<and> str \<noteq> [] \<and> list_all hex_class str"

text \<open>
  \<^verbatim>\<open>Buffer.from(hex, "hex")\<close> of the runtime: pairs of hex digits, upper or lower case,
  decoded from the left; decoding stops at the first pair that is not two hex digits and
  a trailing single character is dropped.
\<close>

definition hex_value :: "unit16 \<Rightarrow> nat option" where
  "hex_value c =
     (let n = unat c
      in if 48 \<le> n \<and> n \<le> 57 then Some (n - 48)
         else if 97 \<le> n \<and> n \<le> 102 then Some (n - 87)
         else if 65 \<le> n \<and> n \<le> 70 then Some (n - 55)
         else None)"

fun Buffer_from_hex :: "jstring \<Rightarrow> buffer" where
  "Buffer_from_hex (a # b # rest) =
     (case hex_value a of
        None \<Rightarrow> []
      | Some x \<Rightarrow>
          (case hex_value b of
             None \<Rightarrow> []
           | Some y \<Rightarrow> word_of_nat (16 * x + y) # Buffer_from_hex rest))"
| "Buffer_from_hex _ = []"

text \<open>\<^verbatim>\<open>buffer.toString("hex")\<close> of the runtime: two lowercase digits for each byte.\<close>

definition hex_digit :: "nat \<Rightarrow> unit16" where
  "hex_digit n =
     (let d = n mod 16
      in if d < 10 then word_of_nat (48 + d) else word_of_nat (87 + d))"

definition toString_hex :: "buffer \<Rightarrow> jstring" where
  "toString_hex bs = concat (map (\<lambda>b. [hex_digit (unat b div 16), hex_digit (unat b mod 16)]) bs)"

text \<open>\<^verbatim>\<open>assertHexLength(hex, expectedBytes, field)\<close>; \<open>Inr ()\<close> is the normal return.\<close>

definition assertHexLength :: "jstring \<Rightarrow> nat \<Rightarrow> string \<Rightarrow> error + unit" where
  "assertHexLength hex expectedBytes field =
     (if \<not> isValidHex hex then Inl (Error (field @ '': invalid hex''))
      else if length hex \<noteq> expectedBytes * 2 then Inl (Error (field @ '': invalid length''))
      else Inr ())"

text \<open>\<^verbatim>\<open>fromHex(hex, field)\<close>.\<close>

definition fromHex :: "jstring \<Rightarrow> string \<Rightarrow> error + buffer" where
  "fromHex hex field =
     (if \<not> isValidHex hex then Inl (Error (field @ '': invalid hex''))
      else Inr (Buffer_from_hex hex))"

text \<open>\<^verbatim>\<open>parseMasterKeyHex(masterKeyHex)\<close>.\<close>

definition parseMasterKeyHex :: "jstring \<Rightarrow> error + buffer" where
  "parseMasterKeyHex masterKeyHex =
     (case assertHexLength masterKeyHex KEY_BYTES ''master key'' of
        Inl e \<Rightarrow> Inl e
      | Inr _ \<Rightarrow> Inr (Buffer_from_hex masterKeyHex))"

subsection \<open>Text encodings of the runtime\<close>

text \<open>
  The surrogate code units: a lead (high) surrogate is in \<^verbatim>\<open>D800..DBFF\<close>, a trail (low)
  surrogate in \<^verbatim>\<open>DC00..DFFF\<close>. A lead followed by a trail is one code point above
  \<^verbatim>\<open>FFFF\<close>; any other surrogate is a lone surrogate.
\<close>

definition is_lead :: "unit16 \<Rightarrow> bool" where
  "is_lead u \<longleftrightarrow> 0xD800 \<le> u \<and> u \<le> 0xDBFF"

definition is_trail :: "unit16 \<Rightarrow> bool" where
  "is_trail u \<longleftrightarrow> 0xDC00 \<le> u \<and> u \<le> 0xDFFF"

text \<open>
  \<^verbatim>\<open>Buffer.from(text, "utf8")\<close>: one byte for a code unit below \<^verbatim>\<open>80\<close>, two below \<^verbatim>\<open>800\<close>,
  four for a surrogate pair, the three bytes \<^verbatim>\<open>EF BF BD\<close> (the replacement character) for
  a lone surrogate, three for every other code unit.
\<close>

definition utf8_pair :: "unit16 \<Rightarrow> unit16 \<Rightarrow> buffer" where
  "utf8_pair u v =
     (let cp = 65536 + (unat u - 55296) * 1024 + (unat v - 56320)
      in [word_of_nat (240 + cp div 262144), word_of_nat (128 + cp div 4096 mod 64),
          word_of_nat (128 + cp div 64 mod 64), word_of_nat (128 + cp mod 64)])"

definition utf8_unit :: "unit16 \<Rightarrow> buffer" where
  "utf8_unit u =
     (let n = unat u
      in if n < 128 then [word_of_nat n]
         else if n < 2048 then [word_of_nat (192 + n div 64), word_of_nat (128 + n mod 64)]
         else if is_lead u \<or> is_trail u then [239, 191, 189]
         else [word_of_nat (224 + n div 4096), word_of_nat (128 + n div 64 mod 64),
               word_of_nat (128 + n mod 64)])"

fun Buffer_from_utf8 :: "jstring \<Rightarrow> buffer" where
  "Buffer_from_utf8 [] = []"
| "Buffer_from_utf8 [u] = utf8_unit u"
| "Buffer_from_utf8 (u # v # rest) =
     (if is_lead u \<and> is_trail v then utf8_pair u v @ Buffer_from_utf8 rest
      else utf8_unit u @ Buffer_from_utf8 (v # rest))"

text \<open>
  \<^verbatim>\<open>JSON.stringify\<close> on a string (the standard's \<^verbatim>\<open>QuoteJSONString\<close>, well-formed since
  ES2019): the quotation mark and the backslash are escaped with a backslash, the control
  characters below \<^verbatim>\<open>20\<close> by their short escape or by \<^verbatim>\<open>\u00xx\<close>, a lone surrogate by
  \<^verbatim>\<open>\udxxx\<close>; a surrogate pair and every other code unit stand for themselves.
\<close>

definition unicode_escape :: "unit16 \<Rightarrow> jstring" where
  "unicode_escape u =
     [92, 117, hex_digit (unat u div 4096), hex_digit (unat u div 256),
      hex_digit (unat u div 16), hex_digit (unat u)]"

definition json_escape :: "unit16 \<Rightarrow> jstring" where
  "json_escape u =
     (if u = 34 then [92, 34]
      else if u = 92 then [92, 92]
      else if u = 8 then [92, 98]
      else if u = 12 then [92, 102]
      else if u = 10 then [92, 110]
      else if u = 13 then [92, 114]
      else if u = 9 then [92, 116]
      else if unat u < 32 \<or> is_lead u \<or> is_trail u then unicode_escape u
      else [u])"

fun quote_body :: "jstring \<Rightarrow> jstring" where
  "quote_body [] = []"
| "quote_body [u] = json_escape u"
| "quote_body (u # v # rest) =
     (if is_lead u \<and> is_trail v then u # v # quote_body rest
      else json_escape u @ quote_body (v # rest))"

definition QuoteJSONString :: "jstring \<Rightarrow> jstring" where
  "QuoteJSONString text = 34 # quote_body text @ [34]"

text \<open>
  \<^verbatim>\<open>JSON.stringify\<close> on an integral number: its decimal digits, with a minus sign below
  zero (the runtime switches to exponent notation from \<open>10^21\<close> on; the only number the
  source serializes is \<^verbatim>\<open>mk_version\<close>).
\<close>

fun decimal :: "nat \<Rightarrow> jstring" where
  "decimal n = (if n < 10 then [hex_digit n] else decimal (n div 10) @ [hex_digit (n mod 10)])"

declare decimal.simps [simp del]

definition Number_toString :: "int \<Rightarrow> jstring" where
  "Number_toString i = (if i < 0 then 45 # decimal (nat (- i)) else decimal (nat i))"

subsection \<open>The secure record\<close>

text \<open>
  Modelled from the spec: the type \<^verbatim>\<open>TxSecureRecord\<close> is declared in \<^verbatim>\<open>types.ts\<close>, which
  is not among the sources. Its fields are those of section 3 of the specification and
  of the object literal that \<^verbatim>\<open>encryptTransaction\<close> returns; the field \<^verbatim>\<open>id\<close> is named
  \<open>id_rec\<close> here.
\<close>

record TxSecureRecord =
  id_rec :: jstring
  partyId :: jstring
  createdAt :: jstring
  payload_nonce :: jstring
  payload_ct :: jstring
  payload_tag :: jstring
  dek_wrap_nonce :: jstring
  dek_wrapped :: jstring
  dek_wrap_tag :: jstring
  alg :: jstring
  mk_version :: int

text \<open>
  The associated data of both layers,
  \<^verbatim>\<open>Buffer.from(JSON.stringify({ id, partyId, createdAt, alg, mk_version }), "utf8")\<close>:
  the five properties in the order of the object literal.
\<close>

definition aad_json :: "jstring \<Rightarrow> jstring \<Rightarrow> jstring \<Rightarrow> jstring \<Rightarrow> int \<Rightarrow> jstring" where
  \<open>aad_json i p c a v =
     js ''{"id":'' @ QuoteJSONString i @ js '',"partyId":'' @ QuoteJSONString p @
     js '',"createdAt":'' @ QuoteJSONString c @ js '',"alg":'' @ QuoteJSONString a @
     js '',"mk_version":'' @ Number_toString v @ js ''}''\<close>

definition aad_bytes :: "jstring \<Rightarrow> jstring \<Rightarrow> jstring \<Rightarrow> jstring \<Rightarrow> int \<Rightarrow> buffer" where
  "aad_bytes i p c a v = Buffer_from_utf8 (aad_json i p c a v)"

subsection \<open>The runtime and the world\<close>

text \<open>
  What the source takes from Node and from the language is a parameter of the model.
  \<^item> \<open>cipher_seal key nonce aad plaintext\<close> is the pair of ciphertext and tag that
    \<^verbatim>\<open>createCipheriv("aes-256-gcm", key, nonce)\<close> gives after \<^verbatim>\<open>setAAD\<close>, \<^verbatim>\<open>update\<close>,
    \<^verbatim>\<open>final\<close> and \<^verbatim>\<open>getAuthTag\<close>.
  \<^item> \<open>cipher_open key nonce aad tag ciphertext\<close> is the plaintext that
    \<^verbatim>\<open>createDecipheriv("aes-256-gcm", key, nonce)\<close> gives after \<^verbatim>\<open>setAAD\<close>, \<^verbatim>\<open>setAuthTag\<close>,
    \<^verbatim>\<open>update\<close> and \<^verbatim>\<open>final\<close>, or \<open>None\<close> when one of them throws.
  \<^item> \<open>Date_parse_isNaN text\<close> is \<^verbatim>\<open>Number.isNaN(Date.parse(text))\<close>.
  \<^item> \<open>JSON_stringify payload\<close> is the outcome of \<^verbatim>\<open>JSON.stringify(payload)\<close>: it throws
    (a cyclic object, a BigInt), returns \<^verbatim>\<open>undefined\<close>, or returns a text.
  \<^item> \<open>JSON_stringify_leaves payload\<close> is the payload as \<^verbatim>\<open>JSON.stringify(payload)\<close> leaves
    it: the call runs the \<^verbatim>\<open>toJSON\<close> methods and the getters of the payload, and they may
    write to it.
  \<^item> \<open>JSON_parse_utf8 bytes\<close> is \<^verbatim>\<open>JSON.parse(bytes.toString("utf8"))\<close>, \<open>None\<close> when
    it throws.
  The payload is \<^verbatim>\<open>unknown\<close> in the source and a type variable here.
\<close>

datatype stringified = Threw error | Undefined | Text jstring

record 'p runtime =
  cipher_seal :: "buffer \<Rightarrow> buffer \<Rightarrow> buffer \<Rightarrow> buffer \<Rightarrow> buffer \<times> buffer"
  cipher_open :: "buffer \<Rightarrow> buffer \<Rightarrow> buffer \<Rightarrow> buffer \<Rightarrow> buffer \<Rightarrow> buffer option"
  Date_parse_isNaN :: "jstring \<Rightarrow> bool"
  JSON_stringify :: "'p \<Rightarrow> stringified"
  JSON_stringify_leaves :: "'p \<Rightarrow> 'p"
  JSON_parse_utf8 :: "buffer \<Rightarrow> 'p option"

text \<open>
  What a call of \<^verbatim>\<open>encryptTransaction\<close> reads from outside its arguments: the bytes that
  \<^verbatim>\<open>randomBytes\<close> will deliver, the identifier that \<^verbatim>\<open>randomUUID()\<close> returns and the text
  that \<^verbatim>\<open>new Date().toISOString()\<close> returns.
\<close>

record world =
  entropy :: "nat \<Rightarrow> byte"
  uuid :: jstring
  clock :: jstring

text \<open>\<^verbatim>\<open>randomBytes(n)\<close>: the next \<open>n\<close> bytes of the supply, and the supply after them.\<close>

definition randomBytes :: "nat \<Rightarrow> (nat \<Rightarrow> byte) \<Rightarrow> buffer \<times> (nat \<Rightarrow> byte)" where
  "randomBytes n g = (map g [0..<n], \<lambda>i. g (n + i))"

subsection \<open>The AEAD wrapper\<close>

text \<open>
  \<^verbatim>\<open>aesGcmEncrypt(key, plaintext, aad)\<close>, returning the triple of nonce, ciphertext and tag
  together with the rest of the random supply. Both callers pass \<^verbatim>\<open>aad\<close>, and a
  \<^verbatim>\<open>Buffer\<close> is truthy even when empty, so \<^verbatim>\<open>setAAD\<close> is always called.
\<close>

definition aesGcmEncrypt ::
  "'p runtime \<Rightarrow> buffer \<Rightarrow> buffer \<Rightarrow> buffer \<Rightarrow> (nat \<Rightarrow> byte)
     \<Rightarrow> error + ((buffer \<times> buffer \<times> buffer) \<times> (nat \<Rightarrow> byte))" where
  "aesGcmEncrypt E key plaintext aad g =
     (if length key \<noteq> KEY_BYTES then Inl (Error ''key: invalid length'')
      else
        (case randomBytes NONCE_BYTES g of
           (nonce, g') \<Rightarrow>
             (case cipher_seal E key nonce aad plaintext of
                (ciphertext, tag) \<Rightarrow> Inr ((nonce, ciphertext, tag), g'))))"

text \<open>\<^verbatim>\<open>aesGcmDecrypt(key, nonce, ciphertext, tag, aad)\<close>.\<close>

definition aesGcmDecrypt ::
  "'p runtime \<Rightarrow> buffer \<Rightarrow> buffer \<Rightarrow> buffer \<Rightarrow> buffer \<Rightarrow> buffer \<Rightarrow> error + buffer" where
  "aesGcmDecrypt E key nonce ciphertext tag aad =
     (if length key \<noteq> KEY_BYTES then Inl (Error ''key: invalid length'')
      else if length nonce \<noteq> NONCE_BYTES then Inl (Error ''nonce: invalid length'')
      else if length tag \<noteq> TAG_BYTES then Inl (Error ''tag: invalid length'')
      else
        (case cipher_open E key nonce aad tag ciphertext of
           None \<Rightarrow> Inl (Error ''decryption failed'')
         | Some plaintext \<Rightarrow> Inr plaintext))"

subsection \<open>The constructor\<close>

text \<open>
  \<^verbatim>\<open>encryptTransaction({ partyId, payload, masterKeyHex })\<close>. The parameter is typed
  \<^verbatim>\<open>string\<close>, so of \<^verbatim>\<open>!partyId || typeof partyId !== "string"\<close> the empty string is the
  case that remains. The key is drawn before the payload is serialized, as in the source.
\<close>

definition encryptTransaction ::
  "'p runtime \<Rightarrow> world \<Rightarrow> jstring \<Rightarrow> 'p \<Rightarrow> jstring \<Rightarrow> error + TxSecureRecord" where
  "encryptTransaction E W partyId_in payload masterKeyHex =
     (if partyId_in = [] then Inl (Error ''partyId is required'')
      else
        (case parseMasterKeyHex masterKeyHex of
           Inl e \<Rightarrow> Inl e
         | Inr masterKey \<Rightarrow>
             (case randomBytes KEY_BYTES (entropy W) of
                (dek, g1) \<Rightarrow>
                  (case JSON_stringify E payload of
                     Threw e \<Rightarrow> Inl e
                   | Undefined \<Rightarrow> Inl (Error ''payload is not JSON-serializable'')
                   | Text payloadJson \<Rightarrow>
                       (let payloadBuffer = Buffer_from_utf8 payloadJson;
                            aad = aad_bytes (uuid W) partyId_in (clock W) (js ''AES-256-GCM'') 1
                        in case aesGcmEncrypt E dek payloadBuffer aad g1 of
                             Inl e \<Rightarrow> Inl e
                           | Inr ((pn, pc, pt), g2) \<Rightarrow>
                               (case aesGcmEncrypt E masterKey dek aad g2 of
                                  Inl e \<Rightarrow> Inl e
                                | Inr ((wn, wc, wt), g3) \<Rightarrow>
                                    Inr \<lparr>id_rec = uuid W,
                                         partyId = partyId_in,
                                         createdAt = clock W,
                                         payload_nonce = toString_hex pn,
                                         payload_ct = toString_hex pc,
                                         payload_tag = toString_hex pt,
                                         dek_wrap_nonce = toString_hex wn,
                                         dek_wrapped = toString_hex wc,
                                         dek_wrap_tag = toString_hex wt,
                                         alg = js ''AES-256-GCM'',
                                         mk_version = 1\<rparr>))))))"

subsection \<open>The validator\<close>

text \<open>
  \<^verbatim>\<open>validateRecordShape(record)\<close>; the fields are typed \<^verbatim>\<open>string\<close>, so each
  \<^verbatim>\<open>!record.f || typeof record.f !== "string"\<close> is the test for the empty string.
\<close>

definition validateRecordShape :: "'p runtime \<Rightarrow> TxSecureRecord \<Rightarrow> error + unit" where
  "validateRecordShape E record =
     (if id_rec record = [] then Inl (Error ''id is required'')
      else if partyId record = [] then Inl (Error ''partyId is required'')
      else if createdAt record = [] then Inl (Error ''createdAt is required'')
      else if Date_parse_isNaN E (createdAt record) then Inl (Error ''createdAt: invalid format'')
      else if alg record \<noteq> js ''AES-256-GCM'' then Inl (Error ''unsupported algorithm'')
      else if mk_version record \<noteq> 1 then Inl (Error ''unsupported master key version'')
      else
        (case assertHexLength (payload_nonce record) NONCE_BYTES ''payload_nonce'' of
           Inl e \<Rightarrow> Inl e
         | Inr _ \<Rightarrow>
        (case assertHexLength (payload_tag record) TAG_BYTES ''payload_tag'' of
           Inl e \<Rightarrow> Inl e
         | Inr _ \<Rightarrow>
        (case assertHexLength (dek_wrap_nonce record) NONCE_BYTES ''dek_wrap_nonce'' of
           Inl e \<Rightarrow> Inl e
         | Inr _ \<Rightarrow>
        (case assertHexLength (dek_wrap_tag record) TAG_BYTES ''dek_wrap_tag'' of
           Inl e \<Rightarrow> Inl e
         | Inr _ \<Rightarrow>
        (case fromHex (payload_ct record) ''payload_ct'' of
           Inl e \<Rightarrow> Inl e
         | Inr _ \<Rightarrow>
        (case fromHex (dek_wrapped record) ''dek_wrapped'' of
           Inl e \<Rightarrow> Inl e
         | Inr _ \<Rightarrow> Inr ())))))))"

subsection \<open>The opener\<close>

text \<open>
  \<^verbatim>\<open>decryptTransaction({ record, masterKeyHex })\<close>. Beside its outcome the model returns
  the calls of \<^verbatim>\<open>aesGcmDecrypt\<close> the run has made, in order, each with its arguments.
\<close>

datatype aead_call =
  AesGcmDecrypt (call_key: buffer) (call_nonce: buffer) (call_ciphertext: buffer)
    (call_tag: buffer) (call_aad: buffer)

definition decryptTransaction ::
  "'p runtime \<Rightarrow> TxSecureRecord \<Rightarrow> jstring \<Rightarrow> aead_call list \<times> (error + 'p)" where
  "decryptTransaction E record masterKeyHex =
     (case validateRecordShape E record of
        Inl e \<Rightarrow> ([], Inl e)
      | Inr _ \<Rightarrow>
     (case parseMasterKeyHex masterKeyHex of
        Inl e \<Rightarrow> ([], Inl e)
      | Inr masterKey \<Rightarrow>
     (let aad = aad_bytes (id_rec record) (partyId record) (createdAt record)
                  (alg record) (mk_version record)
      in
     (case fromHex (dek_wrap_nonce record) ''dek_wrap_nonce'' of
        Inl e \<Rightarrow> ([], Inl e)
      | Inr wn \<Rightarrow>
     (case fromHex (dek_wrapped record) ''dek_wrapped'' of
        Inl e \<Rightarrow> ([], Inl e)
      | Inr wc \<Rightarrow>
     (case fromHex (dek_wrap_tag record) ''dek_wrap_tag'' of
        Inl e \<Rightarrow> ([], Inl e)
      | Inr wt \<Rightarrow>
     (let call1 = AesGcmDecrypt masterKey wn wc wt aad
      in
     (case aesGcmDecrypt E masterKey wn wc wt aad of
        Inl e \<Rightarrow> ([call1], Inl e)
      | Inr dek \<Rightarrow>
          if length dek \<noteq> KEY_BYTES then ([call1], Inl (Error ''decryption failed''))
          else
     (case fromHex (payload_nonce record) ''payload_nonce'' of
        Inl e \<Rightarrow> ([call1], Inl e)
      | Inr pn \<Rightarrow>
     (case fromHex (payload_ct record) ''payload_ct'' of
        Inl e \<Rightarrow> ([call1], Inl e)
      | Inr pc \<Rightarrow>
     (case fromHex (payload_tag record) ''payload_tag'' of
        Inl e \<Rightarrow> ([call1], Inl e)
      | Inr pt \<Rightarrow>
     (let call2 = AesGcmDecrypt dek pn pc pt aad
      in
     (case aesGcmDecrypt E dek pn pc pt aad of
        Inl e \<Rightarrow> ([call1, call2], Inl e)
      | Inr plaintext \<Rightarrow>
     (case JSON_parse_utf8 E plaintext of
        None \<Rightarrow> ([call1, call2], Inl (Error ''decryption failed''))
      | Some parsed \<Rightarrow> ([call1, call2], Inr parsed)))))))))))))))"


subsection \<open>The entry points in a process\<close>

text \<open>
  The payload and the record are objects: an entry point receives a reference, and the
  object is in the heap of the process, where any code that holds the reference can write
  to it. The state of a process is its payload objects and its record objects by
  reference, the number of references of each kind that are in use, and the world
  outside. Strings (\<^verbatim>\<open>partyId\<close>, \<^verbatim>\<open>masterKeyHex\<close>, what a field of a record holds) are
  values of the language: a string cannot be changed, only a field of an object can be
  given another one.

  The two entry points are given once more, statement by statement as the source has
  them, on the state of the process. \<^verbatim>\<open>JSON.stringify(payload)\<close> reads the payload object
  and leaves it as its \<^verbatim>\<open>toJSON\<close> methods and getters leave it; \<^verbatim>\<open>randomBytes\<close> uses up
  the random supply, also when the call fails later; the object literal that
  \<^verbatim>\<open>encryptTransaction\<close> returns and the value that \<^verbatim>\<open>JSON.parse\<close> returns are new objects;
  \<^verbatim>\<open>record.f\<close> reads the record object. The other statements work on strings and on
  buffers that the call has made itself. What these runs return is what the functions of
  the sections before compute from the objects and the world of the initial state
  (\<open>encryptTransaction_in_returned\<close>, \<open>decryptTransaction_in_outcome\<close>).
\<close>

record 'p process =
  payload_objects :: "nat \<Rightarrow> 'p"
  record_objects :: "nat \<Rightarrow> TxSecureRecord"
  payload_refs :: nat
  record_refs :: nat
  outside :: world

definition new_payload :: "'p \<Rightarrow> 'p process \<Rightarrow> nat \<times> 'p process" where
  "new_payload v s =
     (payload_refs s,
      s\<lparr>payload_objects := (payload_objects s)(payload_refs s := v),
        payload_refs := Suc (payload_refs s)\<rparr>)"

definition new_record :: "TxSecureRecord \<Rightarrow> 'p process \<Rightarrow> nat \<times> 'p process" where
  "new_record r s =
     (record_refs s,
      s\<lparr>record_objects := (record_objects s)(record_refs s := r),
        record_refs := Suc (record_refs s)\<rparr>)"

definition consume :: "(nat \<Rightarrow> byte) \<Rightarrow> 'p process \<Rightarrow> 'p process" where
  "consume g s = s\<lparr>outside := (outside s)\<lparr>entropy := g\<rparr>\<rparr>"

definition JSON_stringify_in :: "'p runtime \<Rightarrow> nat \<Rightarrow> 'p process \<Rightarrow> stringified \<times> 'p process" where
  "JSON_stringify_in E ref s =
     (JSON_stringify E (payload_objects s ref),
      s\<lparr>payload_objects :=
          (payload_objects s)(ref := JSON_stringify_leaves E (payload_objects s ref))\<rparr>)"

definition JSON_parse_in :: "'p runtime \<Rightarrow> buffer \<Rightarrow> 'p process \<Rightarrow> nat option \<times> 'p process" where
  "JSON_parse_in E bytes s =
     (case JSON_parse_utf8 E bytes of
        None \<Rightarrow> (None, s)
      | Some parsed \<Rightarrow> apfst Some (new_payload parsed s))"

text \<open>\<^verbatim>\<open>encryptTransaction\<close> in a process; it returns the reference of the new record.\<close>

definition encryptTransaction_in ::
  "'p runtime \<Rightarrow> jstring \<Rightarrow> nat \<Rightarrow> jstring \<Rightarrow> 'p process \<Rightarrow> (error + nat) \<times> 'p process" where
  "encryptTransaction_in E partyId_in payload_ref masterKeyHex s0 =
     (if partyId_in = [] then (Inl (Error ''partyId is required''), s0)
      else
        (case parseMasterKeyHex masterKeyHex of
           Inl e \<Rightarrow> (Inl e, s0)
         | Inr masterKey \<Rightarrow>
             (case randomBytes KEY_BYTES (entropy (outside s0)) of
                (dek, g1) \<Rightarrow>
                  (case JSON_stringify_in E payload_ref (consume g1 s0) of
                     (Threw e, s1) \<Rightarrow> (Inl e, s1)
                   | (Undefined, s1) \<Rightarrow> (Inl (Error ''payload is not JSON-serializable''), s1)
                   | (Text payloadJson, s1) \<Rightarrow>
                       (let payloadBuffer = Buffer_from_utf8 payloadJson;
                            id = uuid (outside s1);
                            created = clock (outside s1);
                            aad = aad_bytes id partyId_in created (js ''AES-256-GCM'') 1
                        in case aesGcmEncrypt E dek payloadBuffer aad g1 of
                             Inl e \<Rightarrow> (Inl e, s1)
                           | Inr ((pn, pc, pt), g2) \<Rightarrow>
                               (case aesGcmEncrypt E masterKey dek aad g2 of
                                  Inl e \<Rightarrow> (Inl e, consume g2 s1)
                                | Inr ((wn, wc, wt), g3) \<Rightarrow>
                                    apfst Inr
                                      (new_record
                                         \<lparr>id_rec = id,
                                          partyId = partyId_in,
                                          createdAt = created,
                                          payload_nonce = toString_hex pn,
                                          payload_ct = toString_hex pc,
                                          payload_tag = toString_hex pt,
                                          dek_wrap_nonce = toString_hex wn,
                                          dek_wrapped = toString_hex wc,
                                          dek_wrap_tag = toString_hex wt,
                                          alg = js ''AES-256-GCM'',
                                          mk_version = 1\<rparr>
                                         (consume g3 s1))))))))"

text \<open>
  \<^verbatim>\<open>decryptTransaction\<close> in a process; it returns the reference of the parsed payload.
  Every \<^verbatim>\<open>record.f\<close> is a read of the record object in the state that the statements
  before it have left.
\<close>

definition validateRecordShape_in ::
  "'p runtime \<Rightarrow> nat \<Rightarrow> 'p process \<Rightarrow> (error + unit) \<times> 'p process" where
  "validateRecordShape_in E record_ref s = (validateRecordShape E (record_objects s record_ref), s)"

definition decryptTransaction_in ::
  "'p runtime \<Rightarrow> nat \<Rightarrow> jstring \<Rightarrow> 'p process \<Rightarrow> (error + nat) \<times> 'p process" where
  "decryptTransaction_in E record_ref masterKeyHex s0 =
     (case validateRecordShape_in E record_ref s0 of
        (Inl e, s1) \<Rightarrow> (Inl e, s1)
      | (Inr _, s1) \<Rightarrow>
     (case parseMasterKeyHex masterKeyHex of
        Inl e \<Rightarrow> (Inl e, s1)
      | Inr masterKey \<Rightarrow>
     (let record = record_objects s1 record_ref;
          aad = aad_bytes (id_rec record) (partyId record) (createdAt record)
                  (alg record) (mk_version record)
      in
     (case fromHex (dek_wrap_nonce record) ''dek_wrap_nonce'' of
        Inl e \<Rightarrow> (Inl e, s1)
      | Inr wn \<Rightarrow>
     (case fromHex (dek_wrapped record) ''dek_wrapped'' of
        Inl e \<Rightarrow> (Inl e, s1)
      | Inr wc \<Rightarrow>
     (case fromHex (dek_wrap_tag record) ''dek_wrap_tag'' of
        Inl e \<Rightarrow> (Inl e, s1)
      | Inr wt \<Rightarrow>
     (case aesGcmDecrypt E masterKey wn wc wt aad of
        Inl e \<Rightarrow> (Inl e, s1)
      | Inr dek \<Rightarrow>
          if length dek \<noteq> KEY_BYTES then (Inl (Error ''decryption failed''), s1)
          else
     (case fromHex (payload_nonce record) ''payload_nonce'' of
        Inl e \<Rightarrow> (Inl e, s1)
      | Inr pn \<Rightarrow>
     (case fromHex (payload_ct record) ''payload_ct'' of
        Inl e \<Rightarrow> (Inl e, s1)
      | Inr pc \<Rightarrow>
     (case fromHex (payload_tag record) ''payload_tag'' of
        Inl e \<Rightarrow> (Inl e, s1)
      | Inr pt \<Rightarrow>
     (case aesGcmDecrypt E dek pn pc pt aad of
        Inl e \<Rightarrow> (Inl e, s1)
      | Inr plaintext \<Rightarrow>
     (case JSON_parse_in E plaintext s1 of
        (None, s2) \<Rightarrow> (Inl (Error ''decryption failed''), s2)
      | (Some parsed_ref, s2) \<Rightarrow> (Inr parsed_ref, s2)))))))))))))"

section \<open>Vocabulary of the statements\<close>

text \<open>
  The definitions of this section are not functions of the source: they name what the
  statements below talk about.
\<close>

subsection \<open>Valid records and the calls of the opener\<close>

text \<open>The conjunction of the checks of \<^verbatim>\<open>validateRecordShape\<close>.\<close>

definition shape_ok :: "'p runtime \<Rightarrow> TxSecureRecord \<Rightarrow> bool" where
  "shape_ok E r \<longleftrightarrow>
     id_rec r \<noteq> [] \<and> partyId r \<noteq> [] \<and> createdAt r \<noteq> [] \<and>
     \<not> Date_parse_isNaN E (createdAt r) \<and> alg r = js ''AES-256-GCM'' \<and> mk_version r = 1 \<and>
     isValidHex (payload_nonce r) \<and> length (payload_nonce r) = 24 \<and>
     isValidHex (payload_tag r) \<and> length (payload_tag r) = 32 \<and>
     isValidHex (dek_wrap_nonce r) \<and> length (dek_wrap_nonce r) = 24 \<and>
     isValidHex (dek_wrap_tag r) \<and> length (dek_wrap_tag r) = 32 \<and>
     isValidHex (payload_ct r) \<and> isValidHex (dek_wrapped r)"

text \<open>
  The associated data that \<^verbatim>\<open>decryptTransaction\<close> recomputes from a record, the two calls
  of \<^verbatim>\<open>aesGcmDecrypt\<close> it makes, what the cipher answers to a call, and the three length
  conditions of the wrapper.
\<close>

definition record_aad :: "TxSecureRecord \<Rightarrow> buffer" where
  "record_aad r = aad_bytes (id_rec r) (partyId r) (createdAt r) (alg r) (mk_version r)"

definition wrap_call :: "buffer \<Rightarrow> TxSecureRecord \<Rightarrow> aead_call" where
  "wrap_call masterKey r =
     AesGcmDecrypt masterKey (Buffer_from_hex (dek_wrap_nonce r)) (Buffer_from_hex (dek_wrapped r))
       (Buffer_from_hex (dek_wrap_tag r)) (record_aad r)"

definition payload_call :: "buffer \<Rightarrow> TxSecureRecord \<Rightarrow> aead_call" where
  "payload_call dek r =
     AesGcmDecrypt dek (Buffer_from_hex (payload_nonce r)) (Buffer_from_hex (payload_ct r))
       (Buffer_from_hex (payload_tag r)) (record_aad r)"

definition open_call :: "'p runtime \<Rightarrow> aead_call \<Rightarrow> buffer option" where
  "open_call E c =
     cipher_open E (call_key c) (call_nonce c) (call_aad c) (call_tag c) (call_ciphertext c)"

definition lengths_ok :: "aead_call \<Rightarrow> bool" where
  "lengths_ok c \<longleftrightarrow>
     length (call_key c) = KEY_BYTES \<and> length (call_nonce c) = NONCE_BYTES \<and>
     length (call_tag c) = TAG_BYTES"

text \<open>
  The run of \<^verbatim>\<open>decryptTransaction\<close> after the validator and the key parser have passed:
  \<open>decryptTransaction_shape_ok\<close> below proves that the opener computes exactly this.
\<close>

definition opened :: "'p runtime \<Rightarrow> TxSecureRecord \<Rightarrow> buffer \<Rightarrow> aead_call list \<times> (error + 'p)" where
  "opened E r masterKey =
     (case open_call E (wrap_call masterKey r) of
        None \<Rightarrow> ([wrap_call masterKey r], Inl (Error ''decryption failed''))
      | Some dek \<Rightarrow>
          if length dek \<noteq> KEY_BYTES
          then ([wrap_call masterKey r], Inl (Error ''decryption failed''))
          else
            (case open_call E (payload_call dek r) of
               None \<Rightarrow> ([wrap_call masterKey r, payload_call dek r], Inl (Error ''decryption failed''))
             | Some plaintext \<Rightarrow>
                 (case JSON_parse_utf8 E plaintext of
                    None \<Rightarrow>
                      ([wrap_call masterKey r, payload_call dek r], Inl (Error ''decryption failed''))
                  | Some v \<Rightarrow> ([wrap_call masterKey r, payload_call dek r], Inr v))))"

text \<open>The sixteen messages that \<^verbatim>\<open>validateRecordShape\<close> can throw.\<close>

definition structural_errors :: "error list" where
  "structural_errors =
     [Error ''id is required'', Error ''partyId is required'', Error ''createdAt is required'',
      Error ''createdAt: invalid format'', Error ''unsupported algorithm'',
      Error ''unsupported master key version'',
      Error ''payload_nonce: invalid hex'', Error ''payload_nonce: invalid length'',
      Error ''payload_tag: invalid hex'', Error ''payload_tag: invalid length'',
      Error ''dek_wrap_nonce: invalid hex'', Error ''dek_wrap_nonce: invalid length'',
      Error ''dek_wrap_tag: invalid hex'', Error ''dek_wrap_tag: invalid length'',
      Error ''payload_ct: invalid hex'', Error ''dek_wrapped: invalid hex'']"

subsection \<open>What the constructor draws and seals\<close>

text \<open>
  The three draws of \<^verbatim>\<open>randomBytes\<close> in a call of \<^verbatim>\<open>encryptTransaction\<close>, in the order
  of the source (the key, the payload nonce, the wrap nonce), the associated data it
  seals under, the two sealed boxes and the record assembled from them.
\<close>

definition drawn_dek :: "world \<Rightarrow> buffer" where
  "drawn_dek W = map (entropy W) [0..<KEY_BYTES]"

definition drawn_payload_nonce :: "world \<Rightarrow> buffer" where
  "drawn_payload_nonce W = map (\<lambda>i. entropy W (KEY_BYTES + i)) [0..<NONCE_BYTES]"

definition drawn_wrap_nonce :: "world \<Rightarrow> buffer" where
  "drawn_wrap_nonce W = map (\<lambda>i. entropy W (KEY_BYTES + (NONCE_BYTES + i))) [0..<NONCE_BYTES]"

definition sealed_aad :: "world \<Rightarrow> jstring \<Rightarrow> buffer" where
  "sealed_aad W p = aad_bytes (uuid W) p (clock W) (js ''AES-256-GCM'') 1"

definition payload_box :: "'p runtime \<Rightarrow> world \<Rightarrow> jstring \<Rightarrow> jstring \<Rightarrow> buffer \<times> buffer" where
  "payload_box E W p s =
     cipher_seal E (drawn_dek W) (drawn_payload_nonce W) (sealed_aad W p) (Buffer_from_utf8 s)"

definition wrap_box :: "'p runtime \<Rightarrow> world \<Rightarrow> jstring \<Rightarrow> buffer \<Rightarrow> buffer \<times> buffer" where
  "wrap_box E W p mk = cipher_seal E mk (drawn_wrap_nonce W) (sealed_aad W p) (drawn_dek W)"

definition sealed_record :: "'p runtime \<Rightarrow> world \<Rightarrow> jstring \<Rightarrow> jstring \<Rightarrow> buffer \<Rightarrow> TxSecureRecord" where
  "sealed_record E W p s mk =
     \<lparr>id_rec = uuid W, partyId = p, createdAt = clock W,
      payload_nonce = toString_hex (drawn_payload_nonce W),
      payload_ct = toString_hex (fst (payload_box E W p s)),
      payload_tag = toString_hex (snd (payload_box E W p s)),
      dek_wrap_nonce = toString_hex (drawn_wrap_nonce W),
      dek_wrapped = toString_hex (fst (wrap_box E W p mk)),
      dek_wrap_tag = toString_hex (snd (wrap_box E W p mk)),
      alg = js ''AES-256-GCM'', mk_version = 1\<rparr>"

subsection \<open>What the statements ask of the runtime\<close>

text \<open>
  \<^item> \<open>seal_lengths\<close>: under a 32-byte key and a 12-byte nonce, the cipher's ciphertext
    is as long as the plaintext and its tag has 16 bytes (AES-GCM with the default tag
    length).
  \<^item> \<open>open_inverts_seal\<close>: under a 32-byte key and a 12-byte nonce, opening what was
    sealed, with the same associated data, gives the plaintext back.
  \<^item> \<open>aad_bound\<close>: the box sealed under \<open>aad\<close> is rejected when it is opened, with the
    same key and nonce, under the other associated data \<open>aad'\<close>. For AES-GCM this
    is the authenticity of the associated data; it is asked of one box and one pair of
    associated data at a time.
  \<^item> \<open>world_ok\<close>: \<^verbatim>\<open>randomUUID()\<close> and \<^verbatim>\<open>toISOString()\<close> return non-empty texts and
    \<^verbatim>\<open>Date.parse\<close> accepts the latter.
  \<^item> \<open>lower_hex\<close>: a text over the characters \<^verbatim>\<open>[0-9a-f]\<close>.
\<close>

definition seal_lengths :: "'p runtime \<Rightarrow> bool" where
  "seal_lengths E \<longleftrightarrow>
     (\<forall>key nonce aad p.
        length key = KEY_BYTES \<and> length nonce = NONCE_BYTES \<longrightarrow>
        length (fst (cipher_seal E key nonce aad p)) = length p \<and>
        length (snd (cipher_seal E key nonce aad p)) = TAG_BYTES)"

definition open_inverts_seal :: "'p runtime \<Rightarrow> bool" where
  "open_inverts_seal E \<longleftrightarrow>
     (\<forall>key nonce aad p.
        length key = KEY_BYTES \<and> length nonce = NONCE_BYTES \<longrightarrow>
        cipher_open E key nonce aad (snd (cipher_seal E key nonce aad p))
          (fst (cipher_seal E key nonce aad p)) = Some p)"

definition world_ok :: "'p runtime \<Rightarrow> world \<Rightarrow> bool" where
  "world_ok E W \<longleftrightarrow> uuid W \<noteq> [] \<and> clock W \<noteq> [] \<and> \<not> Date_parse_isNaN E (clock W)"


definition lower_hex :: "jstring \<Rightarrow> bool" where
  "lower_hex text \<longleftrightarrow>
     list_all (\<lambda>c. (48 \<le> unat c \<and> unat c \<le> 57) \<or> (97 \<le> unat c \<and> unat c \<le> 102)) text"


subsection \<open>The checks of the validator\<close>

text \<open>
  \<open>metadata_ok\<close>: the six checks on \<^verbatim>\<open>id\<close>, \<^verbatim>\<open>partyId\<close>, \<^verbatim>\<open>createdAt\<close>, \<^verbatim>\<open>alg\<close> and
  \<^verbatim>\<open>mk_version\<close> pass. \<open>hex_of_bytes text n\<close>: the text is valid hex of \<open>n\<close> bytes, which
  is what \<^verbatim>\<open>assertHexLength\<close> lets through.
\<close>

definition metadata_ok :: "'p runtime \<Rightarrow> TxSecureRecord \<Rightarrow> bool" where
  "metadata_ok E r \<longleftrightarrow>
     id_rec r \<noteq> [] \<and> partyId r \<noteq> [] \<and> createdAt r \<noteq> [] \<and>
     \<not> Date_parse_isNaN E (createdAt r) \<and> alg r = js ''AES-256-GCM'' \<and> mk_version r = 1"

definition hex_of_bytes :: "jstring \<Rightarrow> nat \<Rightarrow> bool" where
  "hex_of_bytes text n \<longleftrightarrow> isValidHex text \<and> length text = 2 * n"

subsection \<open>Outcomes of a run in a process\<close>


text \<open>The record that a run of \<^verbatim>\<open>encryptTransaction\<close> returns, likewise.\<close>

definition returned_record :: "(error + nat) \<times> 'p process \<Rightarrow> error + TxSecureRecord" where
  "returned_record run =
     (case fst run of Inl e \<Rightarrow> Inl e | Inr ref \<Rightarrow> Inr (record_objects (snd run) ref))"

subsection \<open>Code points and the decoders of one code point\<close>






definition utf8_decode1 :: "buffer \<Rightarrow> (nat list \<times> buffer) option" where
  "utf8_decode1 bs =
     (case bs of
        [] \<Rightarrow> None
      | b # r \<Rightarrow>
          if unat b < 128 then Some ([unat b], r)
          else if unat b < 224 then
            (case r of
               b2 # r' \<Rightarrow> Some ([(unat b - 192) * 64 + (unat b2 - 128)], r')
             | _ \<Rightarrow> None)
          else if unat b < 240 then
            (case r of
               b2 # b3 # r' \<Rightarrow>
                 Some ([(unat b - 224) * 4096 + (unat b2 - 128) * 64 + (unat b3 - 128)], r')
             | _ \<Rightarrow> None)
          else
            (case r of
               b2 # b3 # b4 # r' \<Rightarrow>
                 (let cp = (unat b - 240) * 262144 + (unat b2 - 128) * 4096 +
                           (unat b3 - 128) * 64 + (unat b4 - 128)
                  in Some ([55296 + (cp - 65536) div 1024, 56320 + (cp - 65536) mod 1024], r'))
             | _ \<Rightarrow> None))"

section \<open>A runtime to instantiate the statements\<close>

text \<open>
  One instance of the parameters, on which the theorems are evaluated at concrete inputs.
  Payloads are JSON-like values with \<^verbatim>\<open>undefined\<close>; objects are lists of properties in
  order, and \<open>JCounter n\<close> is the object
  \<^verbatim>\<open>{ calls: n, toJSON() { this.calls += 1; return this.calls } }\<close>, an object with a
  \<^verbatim>\<open>toJSON\<close> method that counts its calls. \<open>SerializeJSONProperty\<close> follows the standard's
  algorithm of that name on these values, \<open>toJSON_writes\<close> is the value as the \<^verbatim>\<open>toJSON\<close>
  methods that the algorithm calls leave it, and \<open>JSON_parse_text\<close> is a parser for JSON texts whose numbers are integer
  literals; \<open>utf8_text\<close> decodes well-formed UTF-8 and refuses everything else. The cipher
  is a stand-in with the interface and the lengths of AES-256-GCM: it masks the plaintext
  with one byte derived from key and nonce, and its tag holds checksums of key, nonce,
  associated data and ciphertext. The date test accepts the shape that
  \<^verbatim>\<open>toISOString()\<close> produces.
\<close>

datatype jsval =
  JUndefined | JNull | JBool bool | JNum int | JStr jstring
| JArr "jsval list" | JObj "(jstring \<times> jsval) list"
| JCounter nat

fun commas :: "jstring list \<Rightarrow> jstring" where
  "commas [] = []"
| "commas [t] = t"
| "commas (t # ts) = t @ js '','' @ commas ts"

fun SerializeJSONProperty :: "jsval \<Rightarrow> jstring option" where
  "SerializeJSONProperty JUndefined = None"
| "SerializeJSONProperty JNull = Some (js ''null'')"
| "SerializeJSONProperty (JBool b) = Some (if b then js ''true'' else js ''false'')"
| "SerializeJSONProperty (JNum n) = Some (Number_toString n)"
| "SerializeJSONProperty (JStr s) = Some (QuoteJSONString s)"
| "SerializeJSONProperty (JCounter n) = Some (Number_toString (int (Suc n)))"
| "SerializeJSONProperty (JArr xs) =
     Some (js ''['' @ commas (map (\<lambda>x. case SerializeJSONProperty x of
                                          None \<Rightarrow> js ''null'' | Some t \<Rightarrow> t) xs) @ js '']'')"
| "SerializeJSONProperty (JObj kvs) =
     Some (js ''{'' @ commas (concat (map (\<lambda>kv. case SerializeJSONProperty (snd kv) of
                                                   None \<Rightarrow> []
                                                 | Some t \<Rightarrow> [QuoteJSONString (fst kv) @ js '':'' @ t]) kvs))
           @ js ''}'')"

definition example_stringify :: "jsval \<Rightarrow> stringified" where
  "example_stringify v = (case SerializeJSONProperty v of None \<Rightarrow> Undefined | Some t \<Rightarrow> Text t)"

fun toJSON_writes :: "jsval \<Rightarrow> jsval" where
  "toJSON_writes (JCounter n) = JCounter (Suc n)"
| "toJSON_writes (JArr xs) = JArr (map toJSON_writes xs)"
| "toJSON_writes (JObj kvs) = JObj (map (\<lambda>kv. (fst kv, toJSON_writes (snd kv))) kvs)"
| "toJSON_writes v = v"

definition is_ws :: "unit16 \<Rightarrow> bool" where
  "is_ws c \<longleftrightarrow> c = 32 \<or> c = 9 \<or> c = 10 \<or> c = 13"

definition skip_ws :: "jstring \<Rightarrow> jstring" where
  "skip_ws s = dropWhile is_ws s"

definition is_digit :: "unit16 \<Rightarrow> bool" where
  "is_digit c \<longleftrightarrow> 48 \<le> unat c \<and> unat c \<le> 57"

definition unescape :: "unit16 \<Rightarrow> unit16 option" where
  "unescape e =
     (if e = 34 \<or> e = 92 \<or> e = 47 then Some e
      else if e = 98 then Some 8
      else if e = 102 then Some 12
      else if e = 110 then Some 10
      else if e = 114 then Some 13
      else if e = 116 then Some 9
      else None)"

definition hex4 :: "unit16 \<Rightarrow> unit16 \<Rightarrow> unit16 \<Rightarrow> unit16 \<Rightarrow> nat option" where
  "hex4 a b c d =
     (case (hex_value a, hex_value b, hex_value c, hex_value d) of
        (Some w, Some x, Some y, Some z) \<Rightarrow> Some (4096 * w + 256 * x + 16 * y + z)
      | _ \<Rightarrow> None)"

fun parse_chars :: "jstring \<Rightarrow> (jstring \<times> jstring) option" where
  "parse_chars [] = None"
| "parse_chars (c # cs) =
     (if c = 34 then Some ([], cs)
      else if unat c < 32 then None
      else if c \<noteq> 92 then map_option (apfst ((#) c)) (parse_chars cs)
      else
        (case cs of
           [] \<Rightarrow> None
         | e # r \<Rightarrow>
             if e = 117 then
               (case r of
                  a # b # x # y # r' \<Rightarrow>
                    (case hex4 a b x y of
                       None \<Rightarrow> None
                     | Some n \<Rightarrow> map_option (apfst ((#) (word_of_nat n))) (parse_chars r'))
                | _ \<Rightarrow> None)
             else
               (case unescape e of
                  None \<Rightarrow> None
                | Some ch \<Rightarrow> map_option (apfst ((#) ch)) (parse_chars r))))"

definition digits_value :: "jstring \<Rightarrow> nat" where
  "digits_value ds = foldl (\<lambda>acc d. 10 * acc + (unat d - 48)) 0 ds"

definition parse_number :: "jstring \<Rightarrow> (int \<times> jstring) option" where
  "parse_number s =
     (let neg = (s \<noteq> [] \<and> hd s = 45);
          body = (if neg then tl s else s);
          ds = takeWhile is_digit body;
          rest = dropWhile is_digit body
      in if ds = [] \<or> (length ds > 1 \<and> hd ds = 48) then None
         else if rest \<noteq> [] \<and> (hd rest = 46 \<or> hd rest = 101 \<or> hd rest = 69) then None
         else Some (if neg then - int (digits_value ds) else int (digits_value ds), rest))"

fun obj_put :: "jstring \<Rightarrow> jsval \<Rightarrow> (jstring \<times> jsval) list \<Rightarrow> (jstring \<times> jsval) list" where
  "obj_put k v [] = [(k, v)]"
| "obj_put k v ((k', v') # kvs) = (if k = k' then (k, v) # kvs else (k', v') # obj_put k v kvs)"

fun parse_value :: "nat \<Rightarrow> jstring \<Rightarrow> (jsval \<times> jstring) option"
  and parse_elements :: "nat \<Rightarrow> jstring \<Rightarrow> (jsval list \<times> jstring) option"
  and parse_members :: "nat \<Rightarrow> jstring \<Rightarrow> ((jstring \<times> jsval) list \<times> jstring) option"
where
  "parse_value 0 s = None"
| "parse_value (Suc n) s =
     (case skip_ws s of
        [] \<Rightarrow> None
      | c # r \<Rightarrow>
          if c = 91 then
            (case skip_ws r of
               [] \<Rightarrow> None
             | d # r' \<Rightarrow>
                 if d = 93 then Some (JArr [], r')
                 else map_option (apfst JArr) (parse_elements n r))
          else if c = 123 then
            (case skip_ws r of
               [] \<Rightarrow> None
             | d # r' \<Rightarrow>
                 if d = 125 then Some (JObj [], r')
                 else map_option (apfst (\<lambda>kvs. JObj (foldl (\<lambda>acc kv. obj_put (fst kv) (snd kv) acc) [] kvs)))
                        (parse_members n r))
          else if c = 34 then map_option (apfst JStr) (parse_chars r)
          else if take 4 (c # r) = js ''null'' then Some (JNull, drop 4 (c # r))
          else if take 4 (c # r) = js ''true'' then Some (JBool True, drop 4 (c # r))
          else if take 5 (c # r) = js ''false'' then Some (JBool False, drop 5 (c # r))
          else map_option (apfst JNum) (parse_number (c # r)))"
| "parse_elements 0 s = None"
| "parse_elements (Suc n) s =
     (case parse_value n s of
        None \<Rightarrow> None
      | Some (v, r) \<Rightarrow>
          (case skip_ws r of
             [] \<Rightarrow> None
           | d # r' \<Rightarrow>
               if d = 93 then Some ([v], r')
               else if d = 44 then map_option (apfst ((#) v)) (parse_elements n r')
               else None))"
| "parse_members 0 s = None"
| "parse_members (Suc n) s =
     (case skip_ws s of
        [] \<Rightarrow> None
      | q # r \<Rightarrow>
          if q \<noteq> 34 then None
          else
            (case parse_chars r of
               None \<Rightarrow> None
             | Some (k, r1) \<Rightarrow>
                 (case skip_ws r1 of
                    [] \<Rightarrow> None
                  | col # r2 \<Rightarrow>
                      if col \<noteq> 58 then None
                      else
                        (case parse_value n r2 of
                           None \<Rightarrow> None
                         | Some (v, r3) \<Rightarrow>
                             (case skip_ws r3 of
                                [] \<Rightarrow> None
                              | d # r4 \<Rightarrow>
                                  if d = 125 then Some ([(k, v)], r4)
                                  else if d = 44 then
                                    map_option (apfst ((#) (k, v))) (parse_members n r4)
                                  else None)))))"

definition JSON_parse_text :: "jstring \<Rightarrow> jsval option" where
  "JSON_parse_text s =
     (case parse_value (Suc (length s)) s of
        None \<Rightarrow> None
      | Some (v, rest) \<Rightarrow> if skip_ws rest = [] then Some v else None)"

definition is_cont :: "byte \<Rightarrow> bool" where
  "is_cont b \<longleftrightarrow> 128 \<le> unat b \<and> unat b \<le> 191"

fun utf8_text :: "buffer \<Rightarrow> jstring option" where
  "utf8_text [] = Some []"
| "utf8_text (b # bs) =
     (if unat b < 128 then map_option ((#) (word_of_nat (unat b))) (utf8_text bs)
      else if 194 \<le> unat b \<and> unat b < 224 then
        (case bs of
           b2 # r \<Rightarrow>
             if is_cont b2
             then map_option ((#) (word_of_nat ((unat b - 192) * 64 + (unat b2 - 128))))
                    (utf8_text r)
             else None
         | _ \<Rightarrow> None)
      else if 224 \<le> unat b \<and> unat b < 240 then
        (case bs of
           b2 # b3 # r \<Rightarrow>
             (let n = (unat b - 224) * 4096 + (unat b2 - 128) * 64 + (unat b3 - 128)
              in if is_cont b2 \<and> is_cont b3 \<and> 2048 \<le> n \<and> \<not> (55296 \<le> n \<and> n \<le> 57343)
                 then map_option ((#) (word_of_nat n)) (utf8_text r)
                 else None)
         | _ \<Rightarrow> None)
      else if 240 \<le> unat b \<and> unat b < 245 then
        (case bs of
           b2 # b3 # b4 # r \<Rightarrow>
             (let cp = (unat b - 240) * 262144 + (unat b2 - 128) * 4096 +
                       (unat b3 - 128) * 64 + (unat b4 - 128)
              in if is_cont b2 \<and> is_cont b3 \<and> is_cont b4 \<and> 65536 \<le> cp \<and> cp < 1114112
                 then map_option
                        (\<lambda>t. word_of_nat (55296 + (cp - 65536) div 1024) #
                              word_of_nat (56320 + (cp - 65536) mod 1024) # t)
                        (utf8_text r)
                 else None)
         | _ \<Rightarrow> None)
      else None)"

definition example_parse :: "buffer \<Rightarrow> jsval option" where
  "example_parse bytes = (case utf8_text bytes of None \<Rightarrow> None | Some s \<Rightarrow> JSON_parse_text s)"

definition pad_byte :: "buffer \<Rightarrow> buffer \<Rightarrow> byte" where
  "pad_byte key nonce = foldr (XOR) (key @ nonce) 0"

definition check_tag :: "buffer \<Rightarrow> buffer \<Rightarrow> buffer \<Rightarrow> buffer \<Rightarrow> buffer" where
  "check_tag key nonce aad ciphertext =
     [sum_list key, sum_list nonce, sum_list aad, word_of_nat (length aad),
      sum_list ciphertext, word_of_nat (length ciphertext), 0, 0, 0, 0, 0, 0, 0, 0, 0, 0]"

definition xor_seal :: "buffer \<Rightarrow> buffer \<Rightarrow> buffer \<Rightarrow> buffer \<Rightarrow> buffer \<times> buffer" where
  "xor_seal key nonce aad plaintext =
     (let ciphertext = map (\<lambda>b. b XOR pad_byte key nonce) plaintext
      in (ciphertext, check_tag key nonce aad ciphertext))"

definition xor_open :: "buffer \<Rightarrow> buffer \<Rightarrow> buffer \<Rightarrow> buffer \<Rightarrow> buffer \<Rightarrow> buffer option" where
  "xor_open key nonce aad tag ciphertext =
     (if tag = check_tag key nonce aad ciphertext
      then Some (map (\<lambda>b. b XOR pad_byte key nonce) ciphertext)
      else None)"

fun matches_shape :: "string \<Rightarrow> jstring \<Rightarrow> bool" where
  "matches_shape [] [] = True"
| "matches_shape (p # ps) (c # cs) =
     ((if p = CHR ''d'' then is_digit c else c = word_of_nat (of_char p)) \<and> matches_shape ps cs)"
| "matches_shape _ _ = False"

definition iso_isNaN :: "jstring \<Rightarrow> bool" where
  "iso_isNaN text \<longleftrightarrow> \<not> matches_shape ''dddd-dd-ddTdd:dd:dd.dddZ'' text"

definition example_runtime :: "jsval runtime" where
  "example_runtime =
     \<lparr>cipher_seal = xor_seal, cipher_open = xor_open, Date_parse_isNaN = iso_isNaN,
      JSON_stringify = example_stringify, JSON_stringify_leaves = toJSON_writes,
      JSON_parse_utf8 = example_parse\<rparr>"

definition example_world :: world where
  "example_world =
     \<lparr>entropy = (\<lambda>i. word_of_nat (7 * i + 3)),
      uuid = js ''3b241101-e2bb-4255-8caf-4136c566a962'',
      clock = js ''2026-01-15T09:30:00.000Z''\<rparr>"

definition example_key :: jstring where
  "example_key = js ''0123456789abcdef0123456789abcdef0123456789abcdef0123456789abcdef''"

definition example_payload :: jsval where
  "example_payload = JObj [(js ''amount'', JNum 100), (js ''currency'', JStr (js ''AED''))]"

text \<open>
  The record of the concrete scenario of the specification, as the instance seals it, the
  record of a payload that JSON does not preserve, and records that differ from the
  first in one field.
\<close>

definition example_text :: jstring where
  \<open>example_text = js ''{"amount":100,"currency":"AED"}''\<close>

definition example_record :: TxSecureRecord where
  "example_record =
     sealed_record example_runtime example_world (js ''party_123'') example_text
       (Buffer_from_hex example_key)"

definition lossy_record :: TxSecureRecord where
  "lossy_record =
     sealed_record example_runtime example_world (js ''party_123'') (js ''[null]'')
       (Buffer_from_hex example_key)"

definition tampered_tag_record :: TxSecureRecord where
  "tampered_tag_record =
     example_record\<lparr>payload_tag := js ''000000000000000000000000000000ff''\<rparr>"

definition short_dek_box :: "buffer \<times> buffer" where
  "short_dek_box =
     xor_seal (Buffer_from_hex example_key) (drawn_wrap_nonce example_world)
       (sealed_aad example_world (js ''party_123'')) (replicate 16 0)"

definition short_dek_record :: TxSecureRecord where
  "short_dek_record =
     example_record\<lparr>dek_wrapped := toString_hex (fst short_dek_box),
                    dek_wrap_tag := toString_hex (snd short_dek_box)\<rparr>"




text \<open>
  Two processes that hold the record of the scenario, under different references, among
  different objects and at different moments, and a process whose payload object counts
  the calls of its \<^verbatim>\<open>toJSON\<close> method.
\<close>

definition example_process :: "jsval process" where
  "example_process =
     \<lparr>payload_objects = (\<lambda>_. example_payload), record_objects = (\<lambda>_. example_record),
      payload_refs = 1, record_refs = 1, outside = example_world\<rparr>"


definition counter_process :: "jsval process" where
  "counter_process = example_process\<lparr>payload_objects := (\<lambda>_. JCounter 0)\<rparr>"

section \<open>Properties of the hex codec\<close>

lemma hex_value_Some_iff: "(\<exists>v. hex_value c = Some v) \<longleftrightarrow> hex_class c"
  by (auto simp: hex_value_def hex_class_def Let_def)

lemma hex_class_value: "hex_class c \<Longrightarrow> \<exists>v. hex_value c = Some v"
  using hex_value_Some_iff by blast

lemma length_Buffer_from_hex:
  "list_all hex_class s \<Longrightarrow> length (Buffer_from_hex s) = length s div 2"
proof (induction s rule: Buffer_from_hex.induct)
  case (1 a b rest)
  from "1.prems" obtain x y where "hex_value a = Some x" "hex_value b = Some y"
    using hex_class_value by fastforce
  with 1 show ?case by simp
qed simp_all

lemma isValidHex_iff:
  "isValidHex s \<longleftrightarrow> s \<noteq> [] \<and> even (length s) \<and> (\<forall>c\<in>set s. hex_class c)"
  by (auto simp: isValidHex_def list_all_iff even_iff_mod_2_eq_zero)

lemma unat_unit16_of_nat: "n < 65536 \<Longrightarrow> unat (word_of_nat n :: unit16) = n"
  by (rule of_nat_inverse [OF refl]) simp



lemma is_trail_unat: "is_trail u \<longleftrightarrow> 56320 \<le> unat u \<and> unat u \<le> 57343"
  by (simp add: is_trail_def word_le_nat_alt)

lemma unat_hex_digit:
  "unat (hex_digit n) = (if n mod 16 < 10 then 48 + n mod 16 else 87 + n mod 16)"
proof -
  have a: "unat (word_of_nat (48 + n mod 16) :: unit16) = 48 + n mod 16"
    by (intro unat_unit16_of_nat) simp
  have b: "unat (word_of_nat (87 + n mod 16) :: unit16) = 87 + n mod 16"
    by (intro unat_unit16_of_nat) simp
  show ?thesis
    by (cases "n mod 16 < 10") (simp_all only: hex_digit_def Let_def a b if_True if_False)
qed

lemma hex_value_digit: "n < 16 \<Longrightarrow> hex_value (hex_digit n) = Some n"
  by (simp add: hex_value_def unat_hex_digit Let_def)

lemma hex_class_digit: "hex_class (hex_digit n)"
proof -
  have "n mod 16 < 16" by simp
  then show ?thesis by (auto simp: hex_class_def unat_hex_digit Let_def)
qed

lemma byte_of_nibbles: "(word_of_nat (16 * (unat b div 16) + unat b mod 16) :: byte) = b"
  by simp

lemma Buffer_from_hex_toString_hex: "Buffer_from_hex (toString_hex bs) = bs"
proof (induction bs)
  case Nil
  then show ?case by (simp add: toString_hex_def)
next
  case (Cons b bs)
  have "unat b < 256" using unsigned_less [of b] by simp
  then have "unat b div 16 < 16" by simp
  then show ?case
    using Cons by (simp add: toString_hex_def hex_value_digit)
qed

lemma length_toString_hex: "length (toString_hex bs) = 2 * length bs"
  by (induction bs) (simp_all add: toString_hex_def)

lemma hex_class_toString_hex: "list_all hex_class (toString_hex bs)"
  by (induction bs) (simp_all add: toString_hex_def hex_class_digit)

lemma toString_hex_Nil_iff: "toString_hex bs = [] \<longleftrightarrow> bs = []"
  by (cases bs) (simp_all add: toString_hex_def)

lemma isValidHex_toString_hex: "isValidHex (toString_hex bs) \<longleftrightarrow> bs \<noteq> []"
  by (simp add: isValidHex_def length_toString_hex hex_class_toString_hex toString_hex_Nil_iff)

lemma assertHexLength_Inr:
  "assertHexLength h n f = Inr u \<longleftrightarrow> isValidHex h \<and> length h = n * 2"
  by (simp add: assertHexLength_def)

lemma fromHex_Inr: "fromHex h f = Inr b \<longleftrightarrow> isValidHex h \<and> b = Buffer_from_hex h"
  by (auto simp: fromHex_def)

lemma fromHex_valid: "isValidHex h \<Longrightarrow> fromHex h f = Inr (Buffer_from_hex h)"
  by (simp add: fromHex_def)

lemma length_Buffer_from_valid: "isValidHex h \<Longrightarrow> length (Buffer_from_hex h) = length h div 2"
  by (simp add: isValidHex_def length_Buffer_from_hex)

lemma parseMasterKeyHex_Inr:
  "parseMasterKeyHex k = Inr mk \<longleftrightarrow>
     isValidHex k \<and> length k = 64 \<and> mk = Buffer_from_hex k"
  by (auto simp: parseMasterKeyHex_def assertHexLength_def KEY_BYTES_def split: sum.splits if_splits)

lemma parseMasterKeyHex_length: "parseMasterKeyHex k = Inr mk \<Longrightarrow> length mk = KEY_BYTES"
  by (simp add: parseMasterKeyHex_Inr length_Buffer_from_valid KEY_BYTES_def)

section \<open>Properties of the validator and of the opener\<close>

lemma validateRecordShape_Inr: "validateRecordShape E r = Inr u \<longleftrightarrow> shape_ok E r"
  unfolding validateRecordShape_def shape_ok_def
  by (simp add: assertHexLength_def fromHex_def NONCE_BYTES_def TAG_BYTES_def)

lemma validateRecordShape_errors:
  "validateRecordShape E r = Inl e \<Longrightarrow> e \<in> set structural_errors"
  unfolding validateRecordShape_def structural_errors_def
  by (auto simp: assertHexLength_def fromHex_def split: if_splits sum.splits)

lemma shape_ok_lengths:
  assumes "shape_ok E r"
  shows "length (Buffer_from_hex (payload_nonce r)) = NONCE_BYTES"
    and "length (Buffer_from_hex (payload_tag r)) = TAG_BYTES"
    and "length (Buffer_from_hex (dek_wrap_nonce r)) = NONCE_BYTES"
    and "length (Buffer_from_hex (dek_wrap_tag r)) = TAG_BYTES"
  using assms by (simp_all add: shape_ok_def length_Buffer_from_valid NONCE_BYTES_def TAG_BYTES_def)

lemma aesGcmDecrypt_lengths_ok:
  "lengths_ok (AesGcmDecrypt key nonce ct tag aad) \<Longrightarrow>
   aesGcmDecrypt E key nonce ct tag aad =
     (case cipher_open E key nonce aad tag ct of
        None \<Rightarrow> Inl (Error ''decryption failed'') | Some p \<Rightarrow> Inr p)"
  by (simp add: aesGcmDecrypt_def lengths_ok_def)

lemma wrap_call_lengths_ok:
  "shape_ok E r \<Longrightarrow> length mk = KEY_BYTES \<Longrightarrow> lengths_ok (wrap_call mk r)"
  by (simp add: lengths_ok_def wrap_call_def shape_ok_lengths)

lemma payload_call_lengths_ok:
  "shape_ok E r \<Longrightarrow> length dek = KEY_BYTES \<Longrightarrow> lengths_ok (payload_call dek r)"
  by (simp add: lengths_ok_def payload_call_def shape_ok_lengths)

lemma decryptTransaction_shape_ok:
  assumes ok: "shape_ok E r" and key: "parseMasterKeyHex k = Inr mk"
  shows "decryptTransaction E r k = opened E r mk"
proof -
  have v: "validateRecordShape E r = Inr ()"
    using ok by (simp add: validateRecordShape_Inr)
  have hex: "isValidHex (dek_wrap_nonce r)" "isValidHex (dek_wrapped r)" "isValidHex (dek_wrap_tag r)"
    "isValidHex (payload_nonce r)" "isValidHex (payload_ct r)" "isValidHex (payload_tag r)"
    using ok by (simp_all add: shape_ok_def)
  have w: "lengths_ok (wrap_call mk r)"
    using ok key by (simp add: wrap_call_lengths_ok parseMasterKeyHex_length)
  have p: "length dek = KEY_BYTES \<Longrightarrow> lengths_ok (payload_call dek r)" for dek
    using ok by (simp add: payload_call_lengths_ok)
  show ?thesis
    unfolding decryptTransaction_def opened_def
    using w p
    by (simp add: v key hex fromHex_valid Let_def aesGcmDecrypt_lengths_ok
        wrap_call_def payload_call_def open_call_def record_aad_def
        split: option.splits)
qed

lemma opened_calls_lengths_ok:
  assumes "shape_ok E r" and "length mk = KEY_BYTES"
  shows "\<forall>c\<in>set (fst (opened E r mk)). lengths_ok c"
  using assms
  by (auto simp: opened_def wrap_call_lengths_ok payload_call_lengths_ok split: option.splits)

lemma opened_result:
  "snd (opened E r mk) = Inl (Error ''decryption failed'') \<or> (\<exists>v. snd (opened E r mk) = Inr v)"
  by (auto simp: opened_def split: option.splits)

section \<open>Properties of the constructor\<close>

lemma length_drawn [simp]:
  "length (drawn_dek W) = KEY_BYTES"
  "length (drawn_payload_nonce W) = NONCE_BYTES"
  "length (drawn_wrap_nonce W) = NONCE_BYTES"
  by (simp_all add: drawn_dek_def drawn_payload_nonce_def drawn_wrap_nonce_def)

lemma encryptTransaction_Inr:
  "encryptTransaction E W p payload k = Inr r \<longleftrightarrow>
     p \<noteq> [] \<and> isValidHex k \<and> length k = 64 \<and>
     (\<exists>s. JSON_stringify E payload = Text s \<and> r = sealed_record E W p s (Buffer_from_hex k))"
proof (cases "p = [] \<or> \<not> (isValidHex k \<and> length k = 64)")
  case True
  then show ?thesis
    by (auto simp: encryptTransaction_def parseMasterKeyHex_def assertHexLength_def KEY_BYTES_def)
next
  case False
  then have key: "parseMasterKeyHex k = Inr (Buffer_from_hex k)"
    by (simp add: parseMasterKeyHex_Inr)
  have len: "length (Buffer_from_hex k) = KEY_BYTES"
    using key by (rule parseMasterKeyHex_length)
  from False key len show ?thesis
    unfolding encryptTransaction_def
    by (cases "JSON_stringify E payload")
      (auto simp: Let_def randomBytes_def aesGcmEncrypt_def sealed_record_def payload_box_def
        wrap_box_def sealed_aad_def drawn_dek_def drawn_payload_nonce_def drawn_wrap_nonce_def
        split: prod.splits)
qed

lemma utf8_unit_nonempty: "utf8_unit u \<noteq> []"
  by (simp add: utf8_unit_def Let_def)

lemma utf8_pair_nonempty: "utf8_pair u v \<noteq> []"
  by (simp add: utf8_pair_def Let_def)

lemma Buffer_from_utf8_Nil_iff: "Buffer_from_utf8 s = [] \<longleftrightarrow> s = []"
  by (induction s rule: Buffer_from_utf8.induct)
    (simp_all add: utf8_unit_nonempty utf8_pair_nonempty)

lemma sealed_record_shape_ok:
  assumes "seal_lengths E" and "world_ok E W" and "p \<noteq> []" and "s \<noteq> []"
    and "length mk = KEY_BYTES"
  shows "shape_ok E (sealed_record E W p s mk)"
proof -
  have pc: "length (fst (payload_box E W p s)) = length (Buffer_from_utf8 s)"
    and pt: "length (snd (payload_box E W p s)) = TAG_BYTES"
    and wc: "length (fst (wrap_box E W p mk)) = KEY_BYTES"
    and wt: "length (snd (wrap_box E W p mk)) = TAG_BYTES"
    using assms(1,5) by (simp_all add: seal_lengths_def payload_box_def wrap_box_def)
  have "Buffer_from_utf8 s \<noteq> []" using assms(4) by (simp add: Buffer_from_utf8_Nil_iff)
  then have pc0: "fst (payload_box E W p s) \<noteq> []" using pc by auto
  have wc0: "fst (wrap_box E W p mk) \<noteq> []" using wc by (auto simp: KEY_BYTES_def)
  have pt0: "snd (payload_box E W p s) \<noteq> []" using pt by (auto simp: TAG_BYTES_def)
  have wt0: "snd (wrap_box E W p mk) \<noteq> []" using wt by (auto simp: TAG_BYTES_def)
  have n0: "drawn_payload_nonce W \<noteq> []" "drawn_wrap_nonce W \<noteq> []"
    by (simp_all add: drawn_payload_nonce_def drawn_wrap_nonce_def NONCE_BYTES_def)
  show ?thesis
    using assms(2,3) pc0 wc0 pt0 wt0 n0 pt wt
    by (simp add: shape_ok_def sealed_record_def world_ok_def isValidHex_toString_hex
        length_toString_hex NONCE_BYTES_def TAG_BYTES_def)
qed

lemma record_aad_sealed [simp]: "record_aad (sealed_record E W p s mk) = sealed_aad W p"
  by (simp add: record_aad_def sealed_record_def sealed_aad_def)

lemma wrap_call_sealed:
  "wrap_call mk (sealed_record E W p s mk) =
     AesGcmDecrypt mk (drawn_wrap_nonce W) (fst (wrap_box E W p mk)) (snd (wrap_box E W p mk))
       (sealed_aad W p)"
  by (simp add: wrap_call_def Buffer_from_hex_toString_hex) (simp add: sealed_record_def Buffer_from_hex_toString_hex)

lemma payload_call_sealed:
  "payload_call dek (sealed_record E W p s mk) =
     AesGcmDecrypt dek (drawn_payload_nonce W) (fst (payload_box E W p s))
       (snd (payload_box E W p s)) (sealed_aad W p)"
  by (simp add: payload_call_def) (simp add: sealed_record_def Buffer_from_hex_toString_hex)

lemma opened_sealed_record:
  assumes "open_inverts_seal E" and "length mk = KEY_BYTES"
  shows "opened E (sealed_record E W p s mk) mk =
     (let calls = [wrap_call mk (sealed_record E W p s mk),
                   payload_call (drawn_dek W) (sealed_record E W p s mk)]
      in case JSON_parse_utf8 E (Buffer_from_utf8 s) of
           None \<Rightarrow> (calls, Inl (Error ''decryption failed''))
         | Some v \<Rightarrow> (calls, Inr v))"
proof -
  have w: "open_call E (wrap_call mk (sealed_record E W p s mk)) = Some (drawn_dek W)"
    using assms by (simp add: wrap_call_sealed open_call_def wrap_box_def open_inverts_seal_def)
  have p: "open_call E (payload_call (drawn_dek W) (sealed_record E W p s mk))
             = Some (Buffer_from_utf8 s)"
    using assms(1) by (simp add: payload_call_sealed open_call_def payload_box_def open_inverts_seal_def)
  show ?thesis
    unfolding opened_def by (simp add: w p Let_def split: option.splits)
qed

lemma decrypt_sealed_record:
  assumes "seal_lengths E" and "open_inverts_seal E" and "world_ok E W"
    and "p \<noteq> []" and "s \<noteq> []" and "isValidHex K" and "length K = 64"
  shows "snd (decryptTransaction E (sealed_record E W p s (Buffer_from_hex K)) K) =
     (case JSON_parse_utf8 E (Buffer_from_utf8 s) of
        None \<Rightarrow> Inl (Error ''decryption failed'') | Some v \<Rightarrow> Inr v)"
proof -
  have key: "parseMasterKeyHex K = Inr (Buffer_from_hex K)"
    using assms(6,7) by (simp add: parseMasterKeyHex_Inr)
  have len: "length (Buffer_from_hex K) = KEY_BYTES"
    using key by (rule parseMasterKeyHex_length)
  have ok: "shape_ok E (sealed_record E W p s (Buffer_from_hex K))"
    using assms(1,3,4,5) len by (simp add: sealed_record_shape_ok)
  show ?thesis
    using decryptTransaction_shape_ok [OF ok key] opened_sealed_record [OF assms(2) len]
    by (simp add: Let_def split: option.splits)
qed

lemma lower_hex_toString_hex: "lower_hex (toString_hex bs)"
proof -
  have "(48 \<le> unat (hex_digit n) \<and> unat (hex_digit n) \<le> 57) \<or>
        (97 \<le> unat (hex_digit n) \<and> unat (hex_digit n) \<le> 102)" for n
  proof -
    have "n mod 16 < 16" by simp
    then show ?thesis by (auto simp: unat_hex_digit)
  qed
  then show ?thesis
    by (induction bs) (simp_all add: lower_hex_def toString_hex_def)
qed

lemma encryptTransaction_reads_world:
  assumes "encryptTransaction E W partyId_in P K = Inr r"
  shows "id_rec r = uuid W \<and> createdAt r = clock W \<and>
         payload_nonce r = toString_hex (drawn_payload_nonce W) \<and>
         dek_wrap_nonce r = toString_hex (drawn_wrap_nonce W)"
  using assms by (auto simp: encryptTransaction_Inr sealed_record_def)

lemma altered_alg_or_version_rejected:
  assumes "alg r' \<noteq> js ''AES-256-GCM'' \<or> mk_version r' \<noteq> 1"
  shows "validateRecordShape E r' \<noteq> Inr ()"
  using assms by (auto simp: validateRecordShape_Inr shape_ok_def)

section \<open>The associated data determine the metadata\<close>












lemma trail_not_ascii: "is_trail u \<Longrightarrow> u \<noteq> 34 \<and> u \<noteq> 92"
  by (auto simp: is_trail_unat)























lemma utf8_decode1_Nil: "utf8_decode1 [] = None"
  by (simp add: utf8_decode1_def)


















section \<open>Properties of the instance\<close>

lemma seal_lengths_example: "seal_lengths example_runtime"
  by (simp add: seal_lengths_def example_runtime_def xor_seal_def check_tag_def Let_def TAG_BYTES_def)

lemma xor_twice: "map (\<lambda>b. b XOR k) (map (\<lambda>b. b XOR k) p) = (p :: buffer)"
  by (induction p) (simp_all add: xor.assoc)

lemma open_inverts_seal_example: "open_inverts_seal example_runtime"
  by (simp add: open_inverts_seal_def example_runtime_def xor_seal_def xor_open_def Let_def
      xor_twice del: map_map)

lemma example_clock_parses: "\<not> iso_isNaN (js ''2026-01-15T09:30:00.000Z'')"
  by code_simp

lemma world_ok_example: "world_ok example_runtime example_world"
  using example_clock_parses
  by (simp add: world_ok_def example_runtime_def example_world_def js_def)

lemma example_key_valid: "isValidHex example_key \<and> length example_key = 64"
proof -
  have "isValidHex example_key" by code_simp
  moreover have "length example_key = 64" by (simp add: example_key_def js_def)
  ultimately show ?thesis by simp
qed

lemma example_stringify_payload:
  "JSON_stringify example_runtime example_payload = Text example_text"
  by code_simp

lemma example_text_nonempty: "example_text \<noteq> []"
  by (simp add: example_text_def js_def)

lemma party_nonempty: "js ''party_123'' \<noteq> []"
  by (simp add: js_def)

lemma example_parse_payload:
  "JSON_parse_utf8 example_runtime (Buffer_from_utf8 example_text) = Some example_payload"
  by code_simp

lemma encrypt_example:
  "encryptTransaction example_runtime example_world (js ''party_123'') example_payload example_key
     = Inr example_record"
  using example_key_valid example_stringify_payload party_nonempty
  by (simp add: encryptTransaction_Inr example_record_def)

lemma example_key_parsed: "parseMasterKeyHex example_key = Inr (Buffer_from_hex example_key)"
  using example_key_valid by (simp add: parseMasterKeyHex_Inr)

lemma example_record_shape_ok: "shape_ok example_runtime example_record"
  unfolding example_record_def
  using seal_lengths_example world_ok_example example_text_nonempty party_nonempty
    parseMasterKeyHex_length [OF example_key_parsed]
  by (simp add: sealed_record_shape_ok)

lemma zero_tag_valid: "isValidHex (js ''000000000000000000000000000000ff'') \<and>
    length (js ''000000000000000000000000000000ff'') = 32"
proof -
  have "isValidHex (js ''000000000000000000000000000000ff'')" by code_simp
  then show ?thesis by (simp add: js_def)
qed

lemma tampered_tag_shape_ok: "shape_ok example_runtime tampered_tag_record"
  using example_record_shape_ok zero_tag_valid
  by (simp add: shape_ok_def tampered_tag_record_def)

lemma tampered_tag_wrap_opens:
  "open_call example_runtime (wrap_call (Buffer_from_hex example_key) tampered_tag_record)
     = Some (drawn_dek example_world)"
proof -
  have "wrap_call (Buffer_from_hex example_key) tampered_tag_record
      = wrap_call (Buffer_from_hex example_key) example_record"
    by (simp add: wrap_call_def tampered_tag_record_def record_aad_def)
  moreover have "length (Buffer_from_hex example_key) = KEY_BYTES"
    using example_key_parsed by (rule parseMasterKeyHex_length)
  ultimately show ?thesis
    using open_inverts_seal_example
    by (simp add: example_record_def wrap_call_sealed open_call_def wrap_box_def
        open_inverts_seal_def)
qed

lemma tampered_tag_payload_rejected:
  "open_call example_runtime (payload_call (drawn_dek example_world) tampered_tag_record) = None"
proof -
  have "Buffer_from_hex (js ''000000000000000000000000000000ff'')
      = [0, 0, 0, 0, 0, 0, 0, 0, 0, 0, 0, 0, 0, 0, 0, 255]"
    by code_simp
  then show ?thesis
    by (simp add: open_call_def payload_call_def tampered_tag_record_def example_runtime_def
        xor_open_def check_tag_def)
qed

lemma short_dek_box_lengths:
  "length (fst short_dek_box) = 16" "length (snd short_dek_box) = 16"
  by (simp_all add: short_dek_box_def xor_seal_def check_tag_def Let_def)

lemma short_dek_shape_ok: "shape_ok example_runtime short_dek_record"
proof -
  have "fst short_dek_box \<noteq> []" "snd short_dek_box \<noteq> []"
    using short_dek_box_lengths by auto
  then show ?thesis
    using example_record_shape_ok short_dek_box_lengths
    by (simp add: shape_ok_def short_dek_record_def isValidHex_toString_hex length_toString_hex)
qed

lemma short_dek_wrap_opens:
  "open_call example_runtime (wrap_call (Buffer_from_hex example_key) short_dek_record)
     = Some (replicate 16 0)"
proof -
  have "length (Buffer_from_hex example_key) = KEY_BYTES"
    using example_key_parsed by (rule parseMasterKeyHex_length)
  then have "cipher_open example_runtime (Buffer_from_hex example_key)
      (drawn_wrap_nonce example_world) (sealed_aad example_world (js ''party_123''))
      (snd short_dek_box) (fst short_dek_box) = Some (replicate 16 0)"
    using open_inverts_seal_example
    by (simp add: open_inverts_seal_def short_dek_box_def example_runtime_def)
  then show ?thesis
    by (simp add: open_call_def wrap_call_def short_dek_record_def record_aad_def
        Buffer_from_hex_toString_hex)
      (simp add: example_record_def sealed_record_def sealed_aad_def Buffer_from_hex_toString_hex)
qed






section \<open>Properties of the entry points in a process\<close>


lemma decryptTransaction_in_state:
  "snd (decryptTransaction_in E ref K s) = s \<or>
   (\<exists>v. snd (decryptTransaction_in E ref K s) = snd (new_payload v s))"
  unfolding decryptTransaction_in_def validateRecordShape_in_def JSON_parse_in_def
  by (auto simp: Let_def new_payload_def split: sum.split option.split)

lemma encryptTransaction_in_returned:
  "returned_record (encryptTransaction_in E p ref K s)
     = encryptTransaction E (outside s) p (payload_objects s ref) K"
  unfolding encryptTransaction_in_def encryptTransaction_def JSON_stringify_in_def
    new_record_def consume_def returned_record_def
  by (simp add: Let_def split: sum.split prod.split stringified.split)

lemma encryptTransaction_in_payloads:
  "payload_objects (snd (encryptTransaction_in E p ref K s)) = payload_objects s \<or>
   payload_objects (snd (encryptTransaction_in E p ref K s))
     = (payload_objects s)(ref := JSON_stringify_leaves E (payload_objects s ref))"
  unfolding encryptTransaction_in_def JSON_stringify_in_def new_record_def consume_def
  by (simp add: Let_def split: sum.split prod.split stringified.split)

lemma encryptTransaction_in_reaches_stringify:
  assumes "p \<noteq> []" and "isValidHex K" and "length K = 64"
  shows "payload_objects (snd (encryptTransaction_in E p ref K s))
     = (payload_objects s)(ref := JSON_stringify_leaves E (payload_objects s ref))"
proof -
  have "parseMasterKeyHex K = Inr (Buffer_from_hex K)"
    using assms(2,3) by (simp add: parseMasterKeyHex_Inr)
  then show ?thesis
    using assms(1)
    unfolding encryptTransaction_in_def JSON_stringify_in_def new_record_def consume_def
    by (simp add: Let_def split: sum.split prod.split stringified.split)
qed

lemma encryptTransaction_in_reads_world:
  assumes "returned_record (encryptTransaction_in E p ref K s) = Inr r"
  shows "id_rec r = uuid (outside s) \<and> createdAt r = clock (outside s) \<and>
         payload_nonce r = toString_hex (drawn_payload_nonce (outside s)) \<and>
         dek_wrap_nonce r = toString_hex (drawn_wrap_nonce (outside s))"
  using assms unfolding encryptTransaction_in_returned by (rule encryptTransaction_reads_world)


lemma example_payload_has_no_toJSON: "toJSON_writes example_payload = example_payload"
  by (simp add: example_payload_def)

lemma counter_stringify: "JSON_stringify example_runtime (JCounter 0) = Text (js ''1'')"
  by code_simp

section \<open>The claims\<close>

text \<open>
  C1 (as amended). Let the cipher of the runtime be length-preserving with 16-byte tags
  and let its open invert its seal; let \<^verbatim>\<open>randomUUID\<close> and the clock deliver a non-empty
  identifier and a parseable time. Then for every payload \<open>P\<close> whose JSON serialization
  \<open>s\<close> is defined (and, being a JSON text, not empty) and is parsed back to \<open>P\<close> by
  \<^verbatim>\<open>JSON.parse\<close>, every non-empty \<open>partyId\<close> and every valid 64-character key \<open>K\<close>:
  \<^verbatim>\<open>encryptTransaction\<close> returns a record, and \<^verbatim>\<open>decryptTransaction\<close> on that record with
  the same key returns \<open>P\<close>.
\<close>

theorem roundtrip:
  assumes "seal_lengths E" and "open_inverts_seal E" and "world_ok E W"
    and "partyId_in \<noteq> []" and "isValidHex K" and "length K = 64"
    and "JSON_stringify E P = Text s" and "s \<noteq> []"
    and "JSON_parse_utf8 E (Buffer_from_utf8 s) = Some P"
  shows "\<exists>r. encryptTransaction E W partyId_in P K = Inr r \<and>
             snd (decryptTransaction E r K) = Inr P"
proof -
  let ?r = "sealed_record E W partyId_in s (Buffer_from_hex K)"
  have "encryptTransaction E W partyId_in P K = Inr ?r"
    using assms(4-7) by (simp add: encryptTransaction_Inr)
  moreover have "snd (decryptTransaction E ?r K) = Inr P"
    using decrypt_sealed_record [OF assms(1-4) assms(8) assms(5,6)] assms(9) by simp
  ultimately show ?thesis by blast
qed

theorem roundtrip_witness:
  "\<exists>r. encryptTransaction example_runtime example_world (js ''party_123'') example_payload example_key
          = Inr r \<and>
       snd (decryptTransaction example_runtime r example_key) = Inr example_payload"
  using roundtrip [OF seal_lengths_example open_inverts_seal_example world_ok_example
      party_nonempty conjunct1 [OF example_key_valid] conjunct2 [OF example_key_valid]
      example_stringify_payload example_text_nonempty example_parse_payload]
  by simp

text \<open>
  C1 as stated fails at the payload \<^verbatim>\<open>[undefined]\<close>: its serialization is defined, it is
  the text \<^verbatim>\<open>[null]\<close>, and what \<^verbatim>\<open>decryptTransaction\<close> returns for the encrypted record is
  \<^verbatim>\<open>[null]\<close>, another value. The run depends on the cipher only through its open
  inverting its seal (\<open>decrypt_sealed_record\<close>): under any such cipher the opener returns
  what \<^verbatim>\<open>JSON.parse\<close> makes of the serialization.
\<close>

theorem roundtrip_counterexample:
  "JSON_stringify example_runtime (JArr [JUndefined]) = Text (js ''[null]'') \<and>
   encryptTransaction example_runtime example_world (js ''party_123'') (JArr [JUndefined])
     example_key
     = Inr lossy_record \<and>
   snd (decryptTransaction example_runtime lossy_record example_key) = Inr (JArr [JNull]) \<and>
   JArr [JNull] \<noteq> JArr [JUndefined]"
proof -
  have s: "JSON_stringify example_runtime (JArr [JUndefined]) = Text (js ''[null]'')"
    by (simp add: example_runtime_def example_stringify_def js_def)
  have n: "js ''[null]'' \<noteq> []" by (simp add: js_def)
  have p: "JSON_parse_utf8 example_runtime (Buffer_from_utf8 (js ''[null]'')) = Some (JArr [JNull])"
    by code_simp
  have e: "encryptTransaction example_runtime example_world (js ''party_123'') (JArr [JUndefined])
             example_key = Inr lossy_record"
    using example_key_valid s party_nonempty
    by (simp add: encryptTransaction_Inr lossy_record_def)
  have d: "snd (decryptTransaction example_runtime lossy_record example_key) = Inr (JArr [JNull])"
    unfolding lossy_record_def
    using decrypt_sealed_record [OF seal_lengths_example open_inverts_seal_example
        world_ok_example party_nonempty n, of example_key] example_key_valid p
    by simp
  from s e d show ?thesis by simp
qed




text \<open>
  C3. Once the validator and the key parser have passed, every failure of
  \<^verbatim>\<open>decryptTransaction\<close> is the one error \<^verbatim>\<open>"decryption failed"\<close> (the spec's
  \<open>AuthenticationFailed\<close>): when the cipher rejects the wrap layer, when the unwrapped key
  has not 32 bytes, when the cipher rejects the payload layer, and when the plaintext does
  not parse; no other error can come out.
\<close>

theorem crypto_failures_are_opaque:
  assumes "validateRecordShape E r = Inr ()" and "parseMasterKeyHex K = Inr mk"
  shows "(open_call E (wrap_call mk r) = None \<longrightarrow>
            snd (decryptTransaction E r K) = Inl (Error ''decryption failed'')) \<and>
         (\<forall>dek. open_call E (wrap_call mk r) = Some dek \<and> length dek \<noteq> KEY_BYTES \<longrightarrow>
            snd (decryptTransaction E r K) = Inl (Error ''decryption failed'')) \<and>
         (\<forall>dek. open_call E (wrap_call mk r) = Some dek \<and> length dek = KEY_BYTES \<and>
                open_call E (payload_call dek r) = None \<longrightarrow>
            snd (decryptTransaction E r K) = Inl (Error ''decryption failed'')) \<and>
         (\<forall>dek plaintext. open_call E (wrap_call mk r) = Some dek \<and> length dek = KEY_BYTES \<and>
                open_call E (payload_call dek r) = Some plaintext \<and>
                JSON_parse_utf8 E plaintext = None \<longrightarrow>
            snd (decryptTransaction E r K) = Inl (Error ''decryption failed'')) \<and>
         (\<forall>e. snd (decryptTransaction E r K) = Inl e \<longrightarrow> e = Error ''decryption failed'')"
proof -
  have ok: "shape_ok E r" using assms(1) by (simp add: validateRecordShape_Inr)
  have d: "decryptTransaction E r K = opened E r mk"
    using ok assms(2) by (rule decryptTransaction_shape_ok)
  have "\<forall>e. snd (opened E r mk) = Inl e \<longrightarrow> e = Error ''decryption failed''"
    using opened_result [of E r mk] by auto
  then show ?thesis
    unfolding d by (simp add: opened_def)
qed

theorem crypto_failures_are_opaque_witness:
  "snd (decryptTransaction example_runtime tampered_tag_record example_key)
     = Inl (Error ''decryption failed'')"
proof -
  have v: "validateRecordShape example_runtime tampered_tag_record = Inr ()"
    using tampered_tag_shape_ok by (simp add: validateRecordShape_Inr)
  have l: "length (drawn_dek example_world) = KEY_BYTES" by simp
  from crypto_failures_are_opaque [OF v example_key_parsed]
  have "\<forall>dek. open_call example_runtime
                 (wrap_call (Buffer_from_hex example_key) tampered_tag_record) = Some dek \<and>
              length dek = KEY_BYTES \<and>
              open_call example_runtime (payload_call dek tampered_tag_record) = None \<longrightarrow>
           snd (decryptTransaction example_runtime tampered_tag_record example_key)
             = Inl (Error ''decryption failed'')"
    by (elim conjE)
  with tampered_tag_wrap_opens l tampered_tag_payload_rejected show ?thesis
    by blast
qed

text \<open>
  C4. \<^verbatim>\<open>decryptTransaction\<close> runs the validator first: a record that fails a check makes
  the call throw the error of the first check it fails, whatever the key text is, valid
  or not, and no call of \<^verbatim>\<open>aesGcmDecrypt\<close> is made. The checks and their errors, in
  order: an empty \<^verbatim>\<open>id\<close>, \<^verbatim>\<open>partyId\<close>, \<^verbatim>\<open>createdAt\<close> (\<^verbatim>\<open>"<field> is required"\<close>); a
  \<^verbatim>\<open>createdAt\<close> that \<^verbatim>\<open>Date.parse\<close> refuses (\<^verbatim>\<open>"createdAt: invalid format"\<close>); another
  \<^verbatim>\<open>alg\<close> than the supported one (\<^verbatim>\<open>"unsupported algorithm"\<close>); another \<^verbatim>\<open>mk_version\<close>
  than 1 (\<^verbatim>\<open>"unsupported master key version"\<close>); for \<^verbatim>\<open>payload_nonce\<close> (12 bytes),
  \<^verbatim>\<open>payload_tag\<close> (16), \<^verbatim>\<open>dek_wrap_nonce\<close> (12) and \<^verbatim>\<open>dek_wrap_tag\<close> (16), a text that is
  not hex (\<^verbatim>\<open>"<field>: invalid hex"\<close>) or is hex of another length
  (\<^verbatim>\<open>"<field>: invalid length"\<close>); a \<^verbatim>\<open>payload_ct\<close> or \<^verbatim>\<open>dek_wrapped\<close> that is not hex
  (\<^verbatim>\<open>"<field>: invalid hex"\<close>). A one-byte \<^verbatim>\<open>payload_nonce\<close> gives
  \<^verbatim>\<open>"payload_nonce: invalid length"\<close>. Every record that fails the validator gets one of
  these sixteen errors, and none of them is \<^verbatim>\<open>"decryption failed"\<close>.
\<close>

theorem validation_precedes_crypto:
  "(id_rec r = [] \<longrightarrow>
      decryptTransaction E r K = ([], Inl (Error ''id is required''))) \<and>
   (id_rec r \<noteq> [] \<and> partyId r = [] \<longrightarrow>
      decryptTransaction E r K = ([], Inl (Error ''partyId is required''))) \<and>
   (id_rec r \<noteq> [] \<and> partyId r \<noteq> [] \<and> createdAt r = [] \<longrightarrow>
      decryptTransaction E r K = ([], Inl (Error ''createdAt is required''))) \<and>
   (id_rec r \<noteq> [] \<and> partyId r \<noteq> [] \<and> createdAt r \<noteq> [] \<and>
    Date_parse_isNaN E (createdAt r) \<longrightarrow>
      decryptTransaction E r K = ([], Inl (Error ''createdAt: invalid format''))) \<and>
   (id_rec r \<noteq> [] \<and> partyId r \<noteq> [] \<and> createdAt r \<noteq> [] \<and>
    \<not> Date_parse_isNaN E (createdAt r) \<and> alg r \<noteq> js ''AES-256-GCM'' \<longrightarrow>
      decryptTransaction E r K = ([], Inl (Error ''unsupported algorithm''))) \<and>
   (id_rec r \<noteq> [] \<and> partyId r \<noteq> [] \<and> createdAt r \<noteq> [] \<and>
    \<not> Date_parse_isNaN E (createdAt r) \<and> alg r = js ''AES-256-GCM'' \<and> mk_version r \<noteq> 1 \<longrightarrow>
      decryptTransaction E r K = ([], Inl (Error ''unsupported master key version''))) \<and>
   (metadata_ok E r \<and> \<not> isValidHex (payload_nonce r) \<longrightarrow>
      decryptTransaction E r K = ([], Inl (Error ''payload_nonce: invalid hex''))) \<and>
   (metadata_ok E r \<and> isValidHex (payload_nonce r) \<and> length (payload_nonce r) \<noteq> 24 \<longrightarrow>
      decryptTransaction E r K = ([], Inl (Error ''payload_nonce: invalid length''))) \<and>
   (metadata_ok E r \<and> hex_of_bytes (payload_nonce r) 12 \<and>
    \<not> isValidHex (payload_tag r) \<longrightarrow>
      decryptTransaction E r K = ([], Inl (Error ''payload_tag: invalid hex''))) \<and>
   (metadata_ok E r \<and> hex_of_bytes (payload_nonce r) 12 \<and>
    isValidHex (payload_tag r) \<and> length (payload_tag r) \<noteq> 32 \<longrightarrow>
      decryptTransaction E r K = ([], Inl (Error ''payload_tag: invalid length''))) \<and>
   (metadata_ok E r \<and> hex_of_bytes (payload_nonce r) 12 \<and> hex_of_bytes (payload_tag r) 16 \<and>
    \<not> isValidHex (dek_wrap_nonce r) \<longrightarrow>
      decryptTransaction E r K = ([], Inl (Error ''dek_wrap_nonce: invalid hex''))) \<and>
   (metadata_ok E r \<and> hex_of_bytes (payload_nonce r) 12 \<and> hex_of_bytes (payload_tag r) 16 \<and>
    isValidHex (dek_wrap_nonce r) \<and> length (dek_wrap_nonce r) \<noteq> 24 \<longrightarrow>
      decryptTransaction E r K = ([], Inl (Error ''dek_wrap_nonce: invalid length''))) \<and>
   (metadata_ok E r \<and> hex_of_bytes (payload_nonce r) 12 \<and> hex_of_bytes (payload_tag r) 16 \<and>
    hex_of_bytes (dek_wrap_nonce r) 12 \<and> \<not> isValidHex (dek_wrap_tag r) \<longrightarrow>
      decryptTransaction E r K = ([], Inl (Error ''dek_wrap_tag: invalid hex''))) \<and>
   (metadata_ok E r \<and> hex_of_bytes (payload_nonce r) 12 \<and> hex_of_bytes (payload_tag r) 16 \<and>
    hex_of_bytes (dek_wrap_nonce r) 12 \<and>
    isValidHex (dek_wrap_tag r) \<and> length (dek_wrap_tag r) \<noteq> 32 \<longrightarrow>
      decryptTransaction E r K = ([], Inl (Error ''dek_wrap_tag: invalid length''))) \<and>
   (metadata_ok E r \<and> hex_of_bytes (payload_nonce r) 12 \<and> hex_of_bytes (payload_tag r) 16 \<and>
    hex_of_bytes (dek_wrap_nonce r) 12 \<and> hex_of_bytes (dek_wrap_tag r) 16 \<and>
    \<not> isValidHex (payload_ct r) \<longrightarrow>
      decryptTransaction E r K = ([], Inl (Error ''payload_ct: invalid hex''))) \<and>
   (metadata_ok E r \<and> hex_of_bytes (payload_nonce r) 12 \<and> hex_of_bytes (payload_tag r) 16 \<and>
    hex_of_bytes (dek_wrap_nonce r) 12 \<and> hex_of_bytes (dek_wrap_tag r) 16 \<and>
    isValidHex (payload_ct r) \<and> \<not> isValidHex (dek_wrapped r) \<longrightarrow>
      decryptTransaction E r K = ([], Inl (Error ''dek_wrapped: invalid hex''))) \<and>
   (validateRecordShape E r \<noteq> Inr () \<longrightarrow>
      fst (decryptTransaction E r K) = [] \<and>
      snd (decryptTransaction E r K) \<in> Inl ` set structural_errors \<and>
      snd (decryptTransaction E r K) \<noteq> Inl (Error ''decryption failed''))"
proof -
  have last: "fst (decryptTransaction E r K) = [] \<and>
      snd (decryptTransaction E r K) \<in> Inl ` set structural_errors \<and>
      snd (decryptTransaction E r K) \<noteq> Inl (Error ''decryption failed'')"
    if "validateRecordShape E r \<noteq> Inr ()"
  proof -
    from that obtain e where e: "validateRecordShape E r = Inl e"
      by (cases "validateRecordShape E r") auto
    then have "e \<in> set structural_errors" by (rule validateRecordShape_errors)
    moreover from this have "e \<noteq> Error ''decryption failed''"
      by (auto simp: structural_errors_def)
    moreover have "decryptTransaction E r K = ([], Inl e)"
      using e by (simp add: decryptTransaction_def)
    ultimately show ?thesis by simp
  qed
  show ?thesis
    apply (intro conjI impI)
                    apply (simp_all add: last)
                   apply (simp_all add: decryptTransaction_def validateRecordShape_def metadata_ok_def
        hex_of_bytes_def assertHexLength_def fromHex_def NONCE_BYTES_def TAG_BYTES_def)
    done
qed

theorem validation_precedes_crypto_witness:
  "decryptTransaction example_runtime (example_record\<lparr>id_rec := []\<rparr>) (js ''zz'')
     = ([], Inl (Error ''id is required'')) \<and>
   decryptTransaction example_runtime (example_record\<lparr>partyId := []\<rparr>) (js ''zz'')
     = ([], Inl (Error ''partyId is required'')) \<and>
   decryptTransaction example_runtime (example_record\<lparr>createdAt := []\<rparr>) (js ''zz'')
     = ([], Inl (Error ''createdAt is required'')) \<and>
   decryptTransaction example_runtime (example_record\<lparr>createdAt := js ''yesterday''\<rparr>) (js ''zz'')
     = ([], Inl (Error ''createdAt: invalid format'')) \<and>
   decryptTransaction example_runtime (example_record\<lparr>alg := js ''AES-128-GCM''\<rparr>) (js ''zz'')
     = ([], Inl (Error ''unsupported algorithm'')) \<and>
   decryptTransaction example_runtime (example_record\<lparr>mk_version := 2\<rparr>) (js ''zz'')
     = ([], Inl (Error ''unsupported master key version'')) \<and>
   decryptTransaction example_runtime (example_record\<lparr>payload_nonce := js ''zz''\<rparr>) (js ''zz'')
     = ([], Inl (Error ''payload_nonce: invalid hex'')) \<and>
   decryptTransaction example_runtime (example_record\<lparr>payload_nonce := js ''00''\<rparr>) (js ''zz'')
     = ([], Inl (Error ''payload_nonce: invalid length'')) \<and>
   decryptTransaction example_runtime (example_record\<lparr>payload_tag := js ''zz''\<rparr>) (js ''zz'')
     = ([], Inl (Error ''payload_tag: invalid hex'')) \<and>
   decryptTransaction example_runtime (example_record\<lparr>payload_tag := js ''00''\<rparr>) (js ''zz'')
     = ([], Inl (Error ''payload_tag: invalid length'')) \<and>
   decryptTransaction example_runtime (example_record\<lparr>dek_wrap_nonce := js ''zz''\<rparr>) (js ''zz'')
     = ([], Inl (Error ''dek_wrap_nonce: invalid hex'')) \<and>
   decryptTransaction example_runtime (example_record\<lparr>dek_wrap_nonce := js ''00''\<rparr>) (js ''zz'')
     = ([], Inl (Error ''dek_wrap_nonce: invalid length'')) \<and>
   decryptTransaction example_runtime (example_record\<lparr>dek_wrap_tag := js ''zz''\<rparr>) (js ''zz'')
     = ([], Inl (Error ''dek_wrap_tag: invalid hex'')) \<and>
   decryptTransaction example_runtime (example_record\<lparr>dek_wrap_tag := js ''00''\<rparr>) (js ''zz'')
     = ([], Inl (Error ''dek_wrap_tag: invalid length'')) \<and>
   decryptTransaction example_runtime (example_record\<lparr>payload_ct := js ''zz''\<rparr>) (js ''zz'')
     = ([], Inl (Error ''payload_ct: invalid hex'')) \<and>
   decryptTransaction example_runtime (example_record\<lparr>dek_wrapped := js ''zz''\<rparr>) (js ''zz'')
     = ([], Inl (Error ''dek_wrapped: invalid hex''))"
proof -
  note ok = example_record_shape_ok [unfolded shape_ok_def]
  have zz: "\<not> isValidHex (js ''zz'')" by code_simp
  have short: "isValidHex (js ''00'')" "length (js ''00'') \<noteq> 24" "length (js ''00'') \<noteq> 32"
    by (code_simp, simp_all add: js_def)
  have nan: "Date_parse_isNaN example_runtime (js ''yesterday'')" "js ''yesterday'' \<noteq> []"
    by (simp_all add: example_runtime_def iso_isNaN_def js_def)
  have other: "js ''AES-128-GCM'' \<noteq> js ''AES-256-GCM''" by (simp add: js_def)
  note t = validation_precedes_crypto [where E = example_runtime and K = "js ''zz''"]
  have 1: "decryptTransaction example_runtime (example_record\<lparr>id_rec := []\<rparr>) (js ''zz'')
     = ([], Inl (Error ''id is required''))"
    using t [of "example_record\<lparr>id_rec := []\<rparr>"] by simp
  have 2: "decryptTransaction example_runtime (example_record\<lparr>partyId := []\<rparr>) (js ''zz'')
     = ([], Inl (Error ''partyId is required''))"
    using t [of "example_record\<lparr>partyId := []\<rparr>"] ok by simp
  have 3: "decryptTransaction example_runtime (example_record\<lparr>createdAt := []\<rparr>) (js ''zz'')
     = ([], Inl (Error ''createdAt is required''))"
    using t [of "example_record\<lparr>createdAt := []\<rparr>"] ok by simp
  have 4: "decryptTransaction example_runtime (example_record\<lparr>createdAt := js ''yesterday''\<rparr>) (js ''zz'')
     = ([], Inl (Error ''createdAt: invalid format''))"
    using t [of "example_record\<lparr>createdAt := js ''yesterday''\<rparr>"] ok nan by simp
  have 5: "decryptTransaction example_runtime (example_record\<lparr>alg := js ''AES-128-GCM''\<rparr>) (js ''zz'')
     = ([], Inl (Error ''unsupported algorithm''))"
    using t [of "example_record\<lparr>alg := js ''AES-128-GCM''\<rparr>"] ok other by simp
  have 6: "decryptTransaction example_runtime (example_record\<lparr>mk_version := 2\<rparr>) (js ''zz'')
     = ([], Inl (Error ''unsupported master key version''))"
    using t [of "example_record\<lparr>mk_version := 2\<rparr>"] ok by simp
  have 7: "decryptTransaction example_runtime (example_record\<lparr>payload_nonce := js ''zz''\<rparr>) (js ''zz'')
     = ([], Inl (Error ''payload_nonce: invalid hex''))"
    using t [of "example_record\<lparr>payload_nonce := js ''zz''\<rparr>"] ok zz
    by (simp add: metadata_ok_def hex_of_bytes_def)
  have 8: "decryptTransaction example_runtime (example_record\<lparr>payload_nonce := js ''00''\<rparr>) (js ''zz'')
     = ([], Inl (Error ''payload_nonce: invalid length''))"
    using t [of "example_record\<lparr>payload_nonce := js ''00''\<rparr>"] ok short
    by (simp add: metadata_ok_def hex_of_bytes_def)
  have 9: "decryptTransaction example_runtime (example_record\<lparr>payload_tag := js ''zz''\<rparr>) (js ''zz'')
     = ([], Inl (Error ''payload_tag: invalid hex''))"
    using t [of "example_record\<lparr>payload_tag := js ''zz''\<rparr>"] ok zz
    by (simp add: metadata_ok_def hex_of_bytes_def)
  have 10: "decryptTransaction example_runtime (example_record\<lparr>payload_tag := js ''00''\<rparr>) (js ''zz'')
     = ([], Inl (Error ''payload_tag: invalid length''))"
    using t [of "example_record\<lparr>payload_tag := js ''00''\<rparr>"] ok short
    by (simp add: metadata_ok_def hex_of_bytes_def)
  have 11: "decryptTransaction example_runtime (example_record\<lparr>dek_wrap_nonce := js ''zz''\<rparr>) (js ''zz'')
     = ([], Inl (Error ''dek_wrap_nonce: invalid hex''))"
    using t [of "example_record\<lparr>dek_wrap_nonce := js ''zz''\<rparr>"] ok zz
    by (simp add: metadata_ok_def hex_of_bytes_def)
  have 12: "decryptTransaction example_runtime (example_record\<lparr>dek_wrap_nonce := js ''00''\<rparr>) (js ''zz'')
     = ([], Inl (Error ''dek_wrap_nonce: invalid length''))"
    using t [of "example_record\<lparr>dek_wrap_nonce := js ''00''\<rparr>"] ok short
    by (simp add: metadata_ok_def hex_of_bytes_def)
  have 13: "decryptTransaction example_runtime (example_record\<lparr>dek_wrap_tag := js ''zz''\<rparr>) (js ''zz'')
     = ([], Inl (Error ''dek_wrap_tag: invalid hex''))"
    using t [of "example_record\<lparr>dek_wrap_tag := js ''zz''\<rparr>"] ok zz
    by (simp add: metadata_ok_def hex_of_bytes_def)
  have 14: "decryptTransaction example_runtime (example_record\<lparr>dek_wrap_tag := js ''00''\<rparr>) (js ''zz'')
     = ([], Inl (Error ''dek_wrap_tag: invalid length''))"
    using t [of "example_record\<lparr>dek_wrap_tag := js ''00''\<rparr>"] ok short
    by (simp add: metadata_ok_def hex_of_bytes_def)
  have 15: "decryptTransaction example_runtime (example_record\<lparr>payload_ct := js ''zz''\<rparr>) (js ''zz'')
     = ([], Inl (Error ''payload_ct: invalid hex''))"
    using t [of "example_record\<lparr>payload_ct := js ''zz''\<rparr>"] ok zz
    by (simp add: metadata_ok_def hex_of_bytes_def)
  have 16: "decryptTransaction example_runtime (example_record\<lparr>dek_wrapped := js ''zz''\<rparr>) (js ''zz'')
     = ([], Inl (Error ''dek_wrapped: invalid hex''))"
    using t [of "example_record\<lparr>dek_wrapped := js ''zz''\<rparr>"] ok zz
    by (simp add: metadata_ok_def hex_of_bytes_def)
  show ?thesis
    by (intro conjI) (fact 1 2 3 4 5 6 7 8 9 10 11 12 13 14 15 16)+
qed

text \<open>
  C5 (as amended). \<^verbatim>\<open>fromHex\<close> throws \<^verbatim>\<open>"<field>: invalid hex"\<close> (the spec's
  \<open>InvalidEncoding\<close>) exactly when the text is empty, has odd length, or contains a
  character outside \<^verbatim>\<open>[0-9a-fA-F]\<close>; every other text, that is every non-empty text of
  even length over the class, is decoded, into half as many bytes as it has characters.
\<close>

theorem fromHex_invalid_iff:
  "(fromHex text field = Inl (Error (field @ '': invalid hex''))
      \<longleftrightarrow> text = [] \<or> odd (length text) \<or> (\<exists>c\<in>set text. \<not> hex_class c)) \<and>
   (text \<noteq> [] \<and> even (length text) \<and> (\<forall>c\<in>set text. hex_class c)
      \<longrightarrow> (\<exists>bytes. fromHex text field = Inr bytes \<and> length bytes = length text div 2))"
proof -
  have "isValidHex text \<Longrightarrow> length (Buffer_from_hex text) = length text div 2"
    by (simp add: isValidHex_def length_Buffer_from_hex)
  then show ?thesis
    by (auto simp: fromHex_def isValidHex_iff)
qed

theorem fromHex_invalid_iff_witness:
  "(\<exists>bytes. fromHex (js ''0aF3'') ''payload_ct'' = Inr bytes \<and> length bytes = 2) \<and>
   fromHex (js ''0aF'') ''payload_ct'' = Inl (Error ''payload_ct: invalid hex'') \<and>
   fromHex (js ''zz'') ''payload_ct'' = Inl (Error ''payload_ct: invalid hex'')"
proof -
  have "isValidHex (js ''0aF3'')" by code_simp
  then have a: "js ''0aF3'' \<noteq> [] \<and> even (length (js ''0aF3'')) \<and>
      (\<forall>c\<in>set (js ''0aF3''). hex_class c)"
    using isValidHex_iff [of "js ''0aF3''"] by blast
  have b: "odd (length (js ''0aF''))" by (simp add: js_def)
  have "\<not> list_all hex_class (js ''zz'')" by code_simp
  then have c: "\<exists>c\<in>set (js ''zz''). \<not> hex_class c" by (simp add: list_all_iff)
  have 1: "\<exists>bytes. fromHex (js ''0aF3'') ''payload_ct'' = Inr bytes \<and> length bytes = 2"
  proof -
    from a fromHex_invalid_iff [of "js ''0aF3''" "''payload_ct''"]
    obtain bytes where "fromHex (js ''0aF3'') ''payload_ct'' = Inr bytes"
      and "length bytes = length (js ''0aF3'') div 2" by blast
    moreover have "length (js ''0aF3'') div 2 = (2::nat)" by (simp add: js_def)
    ultimately show ?thesis by metis
  qed
  have 2: "fromHex (js ''0aF'') ''payload_ct'' = Inl (Error ''payload_ct: invalid hex'')"
    using b fromHex_invalid_iff [of "js ''0aF''" "''payload_ct''"] by simp
  have 3: "fromHex (js ''zz'') ''payload_ct'' = Inl (Error ''payload_ct: invalid hex'')"
    using c fromHex_invalid_iff [of "js ''zz''" "''payload_ct''"] by simp
  from 1 2 3 show ?thesis by blast
qed

text \<open>
  C5 as stated fails at the empty text: it has even length and no character outside the
  class, and \<^verbatim>\<open>fromHex\<close> rejects it, because the regular expression needs one character.
\<close>

theorem fromHex_empty_counterexample:
  "even (length (js [])) \<and> list_all hex_class (js []) \<and>
   fromHex (js []) ''payload_ct'' = Inl (Error ''payload_ct: invalid hex'')"
  by (simp add: fromHex_def isValidHex_def js_def)

text \<open>
  C6. \<^verbatim>\<open>encryptTransaction\<close> throws \<^verbatim>\<open>"partyId is required"\<close> (\<open>MissingField\<close>) for the
  empty \<^verbatim>\<open>partyId\<close> whatever the key and the payload are; for a non-empty \<^verbatim>\<open>partyId\<close> and
  an invalid key it throws the key parser's error (\<open>InvalidKeyMaterial\<close>) whatever the
  payload is, also one whose serialization throws or is undefined; and with both in order
  it throws \<^verbatim>\<open>"payload is not JSON-serializable"\<close> (\<open>NotSerializable\<close>) when the
  serialization is undefined.
\<close>

theorem encrypt_check_order:
  "encryptTransaction E W [] P K = Inl (Error ''partyId is required'') \<and>
   (partyId_in \<noteq> [] \<and> \<not> isValidHex K \<longrightarrow>
      encryptTransaction E W partyId_in P K = Inl (Error ''master key: invalid hex'')) \<and>
   (partyId_in \<noteq> [] \<and> isValidHex K \<and> length K \<noteq> 64 \<longrightarrow>
      encryptTransaction E W partyId_in P K = Inl (Error ''master key: invalid length'')) \<and>
   (partyId_in \<noteq> [] \<and> isValidHex K \<and> length K = 64 \<and> JSON_stringify E P = Undefined \<longrightarrow>
      encryptTransaction E W partyId_in P K = Inl (Error ''payload is not JSON-serializable''))"
  by (simp add: encryptTransaction_def parseMasterKeyHex_def assertHexLength_def KEY_BYTES_def
      randomBytes_def)

theorem encrypt_check_order_witness:
  "encryptTransaction example_runtime example_world [] JUndefined (js ''zz'')
     = Inl (Error ''partyId is required'') \<and>
   encryptTransaction example_runtime example_world (js ''party_123'') JUndefined (js ''zz'')
     = Inl (Error ''master key: invalid hex'') \<and>
   encryptTransaction example_runtime example_world (js ''party_123'') JUndefined (js ''00ff'')
     = Inl (Error ''master key: invalid length'') \<and>
   encryptTransaction example_runtime example_world (js ''party_123'') JUndefined example_key
     = Inl (Error ''payload is not JSON-serializable'')"
proof -
  have a: "\<not> isValidHex (js ''zz'')" by code_simp
  have "isValidHex (js ''00ff'')" by code_simp
  then have b: "isValidHex (js ''00ff'') \<and> length (js ''00ff'') \<noteq> 64" by (simp add: js_def)
  have c: "JSON_stringify example_runtime JUndefined = Undefined"
    by (simp add: example_runtime_def example_stringify_def)
  show ?thesis
    using a b c example_key_valid party_nonempty
      encrypt_check_order [of example_runtime example_world JUndefined "js ''zz''"
        "js ''party_123''"]
      encrypt_check_order [of example_runtime example_world JUndefined "js ''00ff''"
        "js ''party_123''"]
      encrypt_check_order [of example_runtime example_world JUndefined example_key
        "js ''party_123''"]
    by simp
qed

text \<open>
  C7. Let the cipher be length-preserving with 16-byte tags and let \<^verbatim>\<open>randomUUID\<close> and the
  clock deliver a non-empty identifier and a parseable time. Then every record that
  \<^verbatim>\<open>encryptTransaction\<close> returns, for a payload whose serialization \<open>s\<close> is a (non-empty)
  JSON text, passes \<^verbatim>\<open>validateRecordShape\<close>; its six hex fields are lowercase hex; both
  nonces decode to 12 bytes, both tags to 16, \<^verbatim>\<open>payload_ct\<close> to as many bytes as the
  serialized payload has and \<^verbatim>\<open>dek_wrapped\<close> to 32; \<^verbatim>\<open>alg\<close> is \<^verbatim>\<open>"AES-256-GCM"\<close> and
  \<^verbatim>\<open>mk_version\<close> is 1.
\<close>

theorem encrypted_record_is_well_formed:
  assumes "seal_lengths E" and "world_ok E W"
    and "encryptTransaction E W partyId_in P K = Inr r"
    and "JSON_stringify E P = Text s" and "s \<noteq> []"
  shows "validateRecordShape E r = Inr () \<and>
         lower_hex (payload_nonce r) \<and> lower_hex (payload_ct r) \<and> lower_hex (payload_tag r) \<and>
         lower_hex (dek_wrap_nonce r) \<and> lower_hex (dek_wrapped r) \<and> lower_hex (dek_wrap_tag r) \<and>
         length (Buffer_from_hex (payload_nonce r)) = 12 \<and>
         length (Buffer_from_hex (dek_wrap_nonce r)) = 12 \<and>
         length (Buffer_from_hex (payload_tag r)) = 16 \<and>
         length (Buffer_from_hex (dek_wrap_tag r)) = 16 \<and>
         length (Buffer_from_hex (payload_ct r)) = length (Buffer_from_utf8 s) \<and>
         length (Buffer_from_hex (dek_wrapped r)) = 32 \<and>
         alg r = js ''AES-256-GCM'' \<and> mk_version r = 1"
proof -
  from assms(3,4) have p: "partyId_in \<noteq> []"
    and key: "isValidHex K" "length K = 64"
    and r: "r = sealed_record E W partyId_in s (Buffer_from_hex K)"
    by (simp_all add: encryptTransaction_Inr)
  have len: "length (Buffer_from_hex K) = KEY_BYTES"
    using key by (simp add: length_Buffer_from_valid KEY_BYTES_def)
  have v: "validateRecordShape E r = Inr ()"
    unfolding r using assms(1,2,5) p len
    by (simp add: validateRecordShape_Inr sealed_record_shape_ok)
  have l: "length (fst (payload_box E W partyId_in s)) = length (Buffer_from_utf8 s)"
    "length (snd (payload_box E W partyId_in s)) = 16"
    "length (fst (wrap_box E W partyId_in (Buffer_from_hex K))) = 32"
    "length (snd (wrap_box E W partyId_in (Buffer_from_hex K))) = 16"
    using assms(1) len
    by (simp_all add: seal_lengths_def payload_box_def wrap_box_def TAG_BYTES_def KEY_BYTES_def)
  show ?thesis
    using v l unfolding r
    by (simp add: sealed_record_def lower_hex_toString_hex Buffer_from_hex_toString_hex
        NONCE_BYTES_def)
qed

theorem encrypted_record_is_well_formed_witness:
  "validateRecordShape example_runtime example_record = Inr () \<and>
   length (Buffer_from_hex (payload_ct example_record)) = length (Buffer_from_utf8 example_text) \<and>
   length (Buffer_from_hex (dek_wrapped example_record)) = 32 \<and>
   lower_hex (payload_ct example_record)"
  using encrypted_record_is_well_formed [OF seal_lengths_example world_ok_example
      encrypt_example example_stringify_payload example_text_nonempty]
  by simp

text \<open>
  C8. For a record that passed the validator and a key text that passed the parser, every
  call of \<^verbatim>\<open>aesGcmDecrypt\<close> that \<^verbatim>\<open>decryptTransaction\<close> makes has a 32-byte key, a 12-byte
  nonce and a 16-byte tag, so none of the wrapper's three length errors comes out; and
  when the wrap layer opens to a key that has not 32 bytes, the call fails with
  \<^verbatim>\<open>"decryption failed"\<close> after that one call, the payload layer unopened.
\<close>

theorem wrapper_length_errors_unreachable:
  assumes "validateRecordShape E r = Inr ()" and "parseMasterKeyHex K = Inr mk"
  shows "(\<forall>c\<in>set (fst (decryptTransaction E r K)). lengths_ok c) \<and>
         snd (decryptTransaction E r K) \<notin>
           {Inl (Error ''key: invalid length''), Inl (Error ''nonce: invalid length''),
            Inl (Error ''tag: invalid length'')} \<and>
         (\<forall>dek. open_call E (wrap_call mk r) = Some dek \<and> length dek \<noteq> KEY_BYTES \<longrightarrow>
            decryptTransaction E r K = ([wrap_call mk r], Inl (Error ''decryption failed'')))"
proof -
  have ok: "shape_ok E r" using assms(1) by (simp add: validateRecordShape_Inr)
  have d: "decryptTransaction E r K = opened E r mk"
    using ok assms(2) by (rule decryptTransaction_shape_ok)
  have len: "length mk = KEY_BYTES" using assms(2) by (rule parseMasterKeyHex_length)
  have 1: "\<forall>c\<in>set (fst (opened E r mk)). lengths_ok c"
    using ok len by (rule opened_calls_lengths_ok)
  have 2: "snd (opened E r mk) \<notin>
           {Inl (Error ''key: invalid length''), Inl (Error ''nonce: invalid length''),
            Inl (Error ''tag: invalid length'')}"
    using opened_result [of E r mk] by auto
  have 3: "\<forall>dek. open_call E (wrap_call mk r) = Some dek \<and> length dek \<noteq> KEY_BYTES \<longrightarrow>
            opened E r mk = ([wrap_call mk r], Inl (Error ''decryption failed''))"
    by (simp add: opened_def)
  from 1 2 3 show ?thesis unfolding d by blast
qed

theorem wrapper_length_errors_unreachable_witness:
  "decryptTransaction example_runtime short_dek_record example_key
     = ([wrap_call (Buffer_from_hex example_key) short_dek_record],
        Inl (Error ''decryption failed'')) \<and>
   lengths_ok (wrap_call (Buffer_from_hex example_key) short_dek_record)"
proof -
  have v: "validateRecordShape example_runtime short_dek_record = Inr ()"
    using short_dek_shape_ok by (simp add: validateRecordShape_Inr)
  have n: "length (replicate 16 (0::byte)) \<noteq> KEY_BYTES" by (simp add: KEY_BYTES_def)
  note t = wrapper_length_errors_unreachable [OF v example_key_parsed]
  from t have "\<forall>dek. open_call example_runtime
                 (wrap_call (Buffer_from_hex example_key) short_dek_record) = Some dek \<and>
              length dek \<noteq> KEY_BYTES \<longrightarrow>
           decryptTransaction example_runtime short_dek_record example_key
             = ([wrap_call (Buffer_from_hex example_key) short_dek_record],
                Inl (Error ''decryption failed''))"
    by (elim conjE)
  with short_dek_wrap_opens n
  have d: "decryptTransaction example_runtime short_dek_record example_key
     = ([wrap_call (Buffer_from_hex example_key) short_dek_record],
        Inl (Error ''decryption failed''))"
    by blast
  from t have "\<forall>c\<in>set (fst (decryptTransaction example_runtime short_dek_record example_key)).
              lengths_ok c"
    by (elim conjE)
  then have "lengths_ok (wrap_call (Buffer_from_hex example_key) short_dek_record)"
    unfolding d by simp
  with d show ?thesis by simp
qed



text \<open>
  C10 (as amended). In a process, with the payload and the record as objects:
  \<^item> \<^verbatim>\<open>encryptTransaction\<close> writes nothing to the input payload object itself: after the
    call the object is as it was before, or as \<^verbatim>\<open>JSON.stringify\<close> has left it, and so it is
    as it was whenever the \<^verbatim>\<open>toJSON\<close> methods and getters of the payload do not write to
    it;
  \<^item> \<^verbatim>\<open>decryptTransaction\<close> leaves every record object, the input record among them, and
    every payload object that existed before the call as it was; the value it returns is
    a new object;
  on every path: a normal return, a structural error, a cryptographic error.
  (\<^verbatim>\<open>partyId\<close> and \<^verbatim>\<open>masterKeyHex\<close> are strings.)
\<close>

theorem arguments_are_not_mutated:
  "(JSON_stringify_leaves E (payload_objects s payload_ref) = payload_objects s payload_ref \<longrightarrow>
      payload_objects (snd (encryptTransaction_in E partyId_in payload_ref K s)) payload_ref
        = payload_objects s payload_ref) \<and>
   payload_objects (snd (encryptTransaction_in E partyId_in payload_ref K s)) payload_ref
     \<in> {payload_objects s payload_ref,
         JSON_stringify_leaves E (payload_objects s payload_ref)} \<and>
   record_objects (snd (decryptTransaction_in E record_ref K' s)) = record_objects s \<and>
   (\<forall>q < payload_refs s.
      payload_objects (snd (decryptTransaction_in E record_ref K' s)) q = payload_objects s q)"
proof -
  note e = encryptTransaction_in_payloads [of E partyId_in payload_ref K s]
  have 1: "payload_objects (snd (encryptTransaction_in E partyId_in payload_ref K s)) payload_ref
     \<in> {payload_objects s payload_ref,
         JSON_stringify_leaves E (payload_objects s payload_ref)}"
    using e by auto
  note d = decryptTransaction_in_state [of E record_ref K' s]
  have 2: "record_objects (snd (decryptTransaction_in E record_ref K' s)) = record_objects s"
    using d by (auto simp: new_payload_def)
  have 3: "payload_objects (snd (decryptTransaction_in E record_ref K' s)) q = payload_objects s q"
    if "q < payload_refs s" for q
    using d that by (auto simp: new_payload_def)
  from 1 2 3 show ?thesis by auto
qed

theorem arguments_are_not_mutated_witness:
  "payload_objects (snd (encryptTransaction_in example_runtime (js ''party_123'') 0 example_key
      example_process)) 0 = example_payload \<and>
   record_objects (snd (decryptTransaction_in example_runtime 0 (js ''zz'') example_process)) 0
     = example_record \<and>
   payload_objects (snd (decryptTransaction_in example_runtime 0 example_key example_process)) 0
     = example_payload"
proof -
  have leaves: "JSON_stringify_leaves example_runtime (payload_objects example_process 0)
      = payload_objects example_process 0"
    using example_payload_has_no_toJSON by (simp add: example_runtime_def example_process_def)
  have refs: "0 < payload_refs example_process"
    by (simp add: example_process_def)
  note t = arguments_are_not_mutated [where E = example_runtime and s = example_process
      and payload_ref = 0 and record_ref = 0]
  from t [of "js ''party_123''" example_key "js ''zz''"] leaves
  have 1: "payload_objects (snd (encryptTransaction_in example_runtime (js ''party_123'') 0
      example_key example_process)) 0 = payload_objects example_process 0"
    by blast
  from t [of "js ''party_123''" example_key "js ''zz''"]
  have 2: "record_objects (snd (decryptTransaction_in example_runtime 0 (js ''zz'')
      example_process)) = record_objects example_process"
    by blast
  from t [of "js ''party_123''" example_key example_key] refs
  have 3: "payload_objects (snd (decryptTransaction_in example_runtime 0 example_key
      example_process)) 0 = payload_objects example_process 0"
    by blast
  from 1 2 3 show ?thesis by (simp add: example_process_def)
qed

text \<open>
  C10 as stated fails at a payload whose \<^verbatim>\<open>toJSON\<close> method writes to the payload: the
  object \<^verbatim>\<open>{ calls: 0, toJSON() { this.calls += 1; return this.calls } }\<close> is serialized
  by \<^verbatim>\<open>encryptTransaction\<close> with \<^verbatim>\<open>JSON.stringify\<close>, which calls the method; the call returns
  a record, the one that seals the text \<^verbatim>\<open>1\<close>, and the input payload object has
  \<^verbatim>\<open>calls\<close> at 1 after it.
\<close>

theorem arguments_are_not_mutated_counterexample:
  "payload_objects counter_process 0 = JCounter 0 \<and>
   returned_record (encryptTransaction_in example_runtime (js ''party_123'') 0 example_key
      counter_process)
     = Inr (sealed_record example_runtime example_world (js ''party_123'') (js ''1'')
              (Buffer_from_hex example_key)) \<and>
   payload_objects (snd (encryptTransaction_in example_runtime (js ''party_123'') 0 example_key
      counter_process)) 0 = JCounter 1 \<and>
   JCounter 1 \<noteq> JCounter 0"
proof -
  have 1: "payload_objects counter_process 0 = JCounter 0"
    by (simp add: counter_process_def)
  have 2: "returned_record (encryptTransaction_in example_runtime (js ''party_123'') 0
      example_key counter_process)
     = Inr (sealed_record example_runtime example_world (js ''party_123'') (js ''1'')
              (Buffer_from_hex example_key))"
    unfolding encryptTransaction_in_returned
    using example_key_valid party_nonempty counter_stringify
    by (simp add: encryptTransaction_Inr counter_process_def example_process_def)
  have 3: "payload_objects (snd (encryptTransaction_in example_runtime (js ''party_123'') 0
      example_key counter_process)) 0 = JCounter 1"
    using encryptTransaction_in_reaches_stringify [OF party_nonempty
        conjunct1 [OF example_key_valid] conjunct2 [OF example_key_valid],
        of example_runtime 0 counter_process]
    by (simp add: counter_process_def example_runtime_def)
  from 1 2 3 show ?thesis by simp
qed

end
